theory Spec2Isabelle
  imports Main "HOL-Library.Sublist" "HOL-Library.AList"
begin

section \<open>Errors, durations and formatting\<close>

text \<open>
  A Go \<open>string\<close> and a \<open>[]byte\<close> are both byte sequences; both are \<open>char list\<close> here.
\<close>

type_synonym bytes = string

text \<open>
  A Go \<open>error\<close> value: its \<open>Error()\<close> text and, for an error made by \<open>fmt.Errorf\<close> with
  the \<open>%w\<close> verb, the error it wraps.
\<close>

datatype error = Error (message: string) (unwrap: "error option")

definition Errorf :: "string \<Rightarrow> error" where
  \<comment> \<open>\<open>fmt.Errorf(msg)\<close> with no verb\<close>
  "Errorf msg = Error msg None"

definition Errorf_w :: "string \<Rightarrow> error \<Rightarrow> error" where
  \<comment> \<open>\<open>fmt.Errorf(pfx + "%w", err)\<close>\<close>
  "Errorf_w pfx err = Error (pfx @ message err) (Some err)"

text \<open>\<open>time.Duration\<close> is a count of nanoseconds.\<close>

type_synonym Duration = int

definition Second :: Duration where
  "Second = 1000000000"

definition Milliseconds :: "Duration \<Rightarrow> int" where
  \<comment> \<open>\<open>int64(d) / 1e6\<close>; Go's integer division truncates towards zero\<close>
  "Milliseconds d = (if d < 0 then - ((- d) div 1000000) else d div 1000000)"

fun fmt_d :: "nat \<Rightarrow> string" where
  \<comment> \<open>the \<open>%d\<close> verb on a slice index (never negative)\<close>
  "fmt_d n = (if n < 10 then [''0123456789'' ! n]
              else fmt_d (n div 10) @ [''0123456789'' ! (n mod 10)])"

declare fmt_d.simps [simp del]

section \<open>Config and Options (config file of the package)\<close>

text \<open>
  The three timeout fields of \<open>Config\<close> have the type \<open>pkgConfig.Duration\<close> of another
  module; the code only reads them through \<open>.Duration()\<close>, so the record holds the
  \<open>time.Duration\<close> that this accessor returns.
\<close>

record Config =
  Enabled :: bool
  Addresses :: "string list"
  Username :: string
  Password :: string
  CloudID :: string
  APIKey :: string
  EnableTLS :: bool
  CACert :: string
  DialTimeout :: Duration
  ReadTimeout :: Duration
  WriteTimeout :: Duration
  MaxRetries :: int
  EnableTrace :: bool

record Options =
  Addresses :: "string list"
  Username :: string
  Password :: string
  CloudID :: string
  APIKey :: string
  EnableTLS :: bool
  CACert :: string
  DialTimeout :: Duration
  ReadTimeout :: Duration
  WriteTimeout :: Duration
  MaxRetries :: int
  EnableTrace :: bool

fun Validate_addrs :: "nat \<Rightarrow> string list \<Rightarrow> error option" where
  \<comment> \<open>the loop \<open>for i, addr := range c.Addresses\<close> of \<open>Validate\<close>, from index \<open>i\<close> on\<close>
  "Validate_addrs i [] = None"
| "Validate_addrs i (addr # rest) =
     (if addr = ''''
      then Some (Errorf (''elasticsearch addresses['' @ fmt_d i @ ''] cannot be empty''))
      else Validate_addrs (Suc i) rest)"

definition Validate :: "Config option \<Rightarrow> error option" where
  \<comment> \<open>the receiver is a pointer: \<open>None\<close> is the nil \<open>*Config\<close>\<close>
  "Validate c =
     (case c of
        None \<Rightarrow> Some (Errorf ''elasticsearch config cannot be nil'')
      | Some cfg \<Rightarrow>
          if \<not> Enabled cfg then None
          else if length (Config.Addresses cfg) = 0
          then Some (Errorf ''elasticsearch addresses cannot be empty'')
          else Validate_addrs 0 (Config.Addresses cfg))"

definition ToOptions :: "Config option \<Rightarrow> error + Options" where
  \<comment> \<open>\<open>Validate\<close> rejects the nil receiver, so the inner \<open>None\<close> branch is never taken\<close>
  "ToOptions c =
     (case Validate c of
        Some err \<Rightarrow> Inl err
      | None \<Rightarrow>
          (case c of
             None \<Rightarrow> Inl (Errorf ''elasticsearch config cannot be nil'')
           | Some cfg \<Rightarrow>
               if \<not> Enabled cfg then Inl (Errorf ''elasticsearch is not enabled'')
               else
                 let dialTimeout = Config.DialTimeout cfg;
                     dialTimeout = (if dialTimeout = 0 then 30 * Second else dialTimeout);
                     readTimeout = Config.ReadTimeout cfg;
                     readTimeout = (if readTimeout = 0 then 30 * Second else readTimeout);
                     writeTimeout = Config.WriteTimeout cfg;
                     writeTimeout = (if writeTimeout = 0 then 30 * Second else writeTimeout)
                 in Inr \<lparr> Options.Addresses = Config.Addresses cfg,
                          Options.Username = Config.Username cfg,
                          Options.Password = Config.Password cfg,
                          Options.CloudID = Config.CloudID cfg,
                          Options.APIKey = Config.APIKey cfg,
                          Options.EnableTLS = Config.EnableTLS cfg,
                          Options.CACert = Config.CACert cfg,
                          Options.DialTimeout = dialTimeout,
                          Options.ReadTimeout = readTimeout,
                          Options.WriteTimeout = writeTimeout,
                          Options.MaxRetries = Config.MaxRetries cfg,
                          Options.EnableTrace = Config.EnableTrace cfg \<rparr>))"

section \<open>Values, requests and responses\<close>

text \<open>
  A value of Go's \<open>interface{}\<close> as the operations see it. The type switches of the code
  tell \<open>string\<close>, \<open>[]byte\<close> and \<open>float64\<close> apart from everything else;
  \<open>json.RawMessage\<close> is a defined type of its own and is not matched by \<open>case []byte\<close>.
  A \<open>map[string]interface{}\<close> is an association list, \<open>None\<close> for the nil map; a
  \<open>[]byte\<close> is a byte sequence, \<open>None\<close> for the nil slice (which \<open>encoding/json\<close> tells
  apart from the empty one in a \<open>json.RawMessage\<close>).
  \<open>VOther\<close> stands for any further value (a struct, an integer, a channel), told apart
  by a tag. The type \<open>'f\<close> is \<open>float64\<close>.
\<close>

datatype 'f any =
    VNil
  | VBool bool
  | VFloat64 'f
  | VString string
  | VBytes "bytes option"
  | VRawMessage "bytes option"
  | VSlice "'f any list"
  | VMap "(string \<times> 'f any) list option"
  | VOther nat

type_synonym 'f gomap = "(string \<times> 'f any) list option"

definition map_index :: "'f gomap \<Rightarrow> string \<Rightarrow> 'f any" where
  \<comment> \<open>\<open>m[k]\<close>: the zero value (nil) for a missing key and for the nil map\<close>
  "map_index m k =
     (case m of
        None \<Rightarrow> VNil
      | Some kvs \<Rightarrow> (case map_of kvs k of None \<Rightarrow> VNil | Some v \<Rightarrow> v))"

definition map_store :: "'f gomap \<Rightarrow> string \<Rightarrow> 'f any \<Rightarrow> 'f gomap" where
  \<comment> \<open>\<open>m[k] = v\<close> on a map that is not nil\<close>
  "map_store m k v = (case m of None \<Rightarrow> None | Some kvs \<Rightarrow> Some (AList.update k v kvs))"

text \<open>
  The request structs of \<open>esapi\<close>, with the fields the code sets, in the order
  \<open>Index\<close>, \<open>DocumentID\<close>, \<open>Body\<close>, \<open>Refresh\<close> (those a struct has); a body is the text the
  code wraps in \<open>strings.NewReader\<close>, and the body of a count request is \<open>None\<close> when the
  code leaves it unset. \<open>Refresh\<close> reads the field of that name, which is the empty string
  where a struct has none or leaves it unset.
\<close>

datatype request =
    IndexRequest string string bytes string
  | GetRequest string string
  | DeleteRequest string string string
  | SearchRequest "string list" bytes
  | BulkRequest bytes string
  | IndicesCreateRequest string bytes
  | IndicesDeleteRequest "string list"
  | IndicesExistsRequest "string list"
  | UpdateRequest string string bytes string
  | UpdateByQueryRequest "string list" bytes
  | CountRequest "string list" "bytes option"
  | DeleteByQueryRequest "string list" bytes
  | InfoRequest
  | PingRequest

fun Refresh :: "request \<Rightarrow> string" where
  "Refresh (IndexRequest idx doc b r) = r"
| "Refresh (DeleteRequest idx doc r) = r"
| "Refresh (BulkRequest b r) = r"
| "Refresh (UpdateRequest idx doc b r) = r"
| "Refresh _ = ''''"

record Response =
  StatusCode :: int
  Body :: bytes

definition IsError :: "Response \<Rightarrow> bool" where
  \<comment> \<open>\<open>esapi.Response.IsError\<close>: \<open>return r.StatusCode > 299\<close>\<close>
  "IsError res = (StatusCode res > 299)"

text \<open>
  The native client's configuration \<open>elasticsearch.Config\<close>, with the fields
  \<open>NewElasticsearch\<close> sets; every other field keeps its zero value.
\<close>

record es_Config =
  Addresses :: "string list"
  Username :: string
  Password :: string
  CloudID :: string
  APIKey :: string
  MaxRetries :: int

section \<open>Contexts, observable events and the outside world\<close>

type_synonym span = nat

datatype "context" =
    Background
  | WithTimeout "context" Duration
  | WithSpan "context" span

datatype attr = attribute_String string string | attribute_Float64 string int

datatype field = zap_String string string | zap_Duration string Duration | zap_Error error

datatype code = codes_Error | codes_Ok

text \<open>
  What an operation does beyond returning: the calls it makes on the tracing and logging
  collaborators, on the native client's constructor and on the transport, in order.
  \<open>attribute_Float64\<close> holds the integer that the code converts to \<open>float64\<close>.
\<close>

datatype event =
    StartSpan "context" string "attr list" span
  | span_End span
  | span_SetStatus span code string
  | span_RecordError span error
  | span_SetAttributes span "attr list"
  | log_Error "context" string "field list"
  | log_Info "context" string "field list"
  | NewClient es_Config
  | Do "context" request

record 'x world =
  events :: "event list"
  ext :: 'x

text \<open>
  The collaborators the package calls and does not define: the clock, the native client
  (its constructor and its transport, which answers a request with a response or with a
  transport error and may change the outside state \<open>'x\<close>), \<open>encoding/json\<close>, the
  rendering \<open>esapi.Response.String\<close> and the conversion \<open>int64(f)\<close> of a \<open>float64\<close>.
  \<open>json_Decode\<close> returns what \<open>Decode(&result)\<close> leaves in \<open>result\<close> together with its
  error, so a failed decode may leave a partly filled map. \<open>'c\<close> is the native client
  handle.
\<close>

record ('x, 'c, 'f) deps =
  time_Now :: "'x \<Rightarrow> int \<times> 'x"
  elasticsearch_NewClient :: "es_Config \<Rightarrow> 'x \<Rightarrow> (error + 'c) \<times> 'x"
  Perform :: "'c \<Rightarrow> context \<Rightarrow> request \<Rightarrow> 'x \<Rightarrow> (error + Response) \<times> 'x"
  json_Marshal :: "'f any \<Rightarrow> error + bytes"
  json_Decode :: "bytes \<Rightarrow> 'f gomap \<times> error option"
  Response_String :: "Response \<Rightarrow> string"
  int64 :: "'f \<Rightarrow> int"

definition emit :: "event \<Rightarrow> 'x world \<Rightarrow> 'x world" where
  "emit ev w = w\<lparr>events := events w @ [ev]\<rparr>"

definition Now :: "('x, 'c, 'f) deps \<Rightarrow> 'x world \<Rightarrow> int \<times> 'x world" where
  "Now d w = (case time_Now d (ext w) of (t, x) \<Rightarrow> (t, w\<lparr>ext := x\<rparr>))"

definition req_Do ::
  "('x, 'c, 'f) deps \<Rightarrow> 'c \<Rightarrow> context \<Rightarrow> request \<Rightarrow> 'x world \<Rightarrow> (error + Response) \<times> 'x world" where
  \<comment> \<open>\<open>req.Do(ctx, c.client)\<close>: the request goes out, the transport answers\<close>
  "req_Do d cl ctx req w =
     (case Perform d cl ctx req (ext w) of
        (r, x) \<Rightarrow> (r, (emit (Do ctx req) w)\<lparr>ext := x\<rparr>))"

definition pkgtrace_StartSpan ::
  "context \<Rightarrow> string \<Rightarrow> attr list \<Rightarrow> 'x world \<Rightarrow> (context \<times> span) \<times> 'x world" where
  \<comment> \<open>the new span is numbered by the events before it, so no two spans share a number\<close>
  "pkgtrace_StartSpan ctx name attrs w =
     (let sp = length (events w)
      in ((WithSpan ctx sp, sp), emit (StartSpan ctx name attrs sp) w))"

record 'c ElasticsearchClient =
  client :: 'c
  EnableTrace :: bool

section \<open>The trace and log decorators\<close>

definition emits :: "event list \<Rightarrow> 'x world \<Rightarrow> 'x world" where
  "emits evs w = w\<lparr>events := events w @ evs\<rparr>"

definition deferred_End :: "span option \<Rightarrow> 'x world \<Rightarrow> 'x world" where
  \<comment> \<open>\<open>defer span.End()\<close>, registered only where a span was started\<close>
  "deferred_End sp w = (case sp of None \<Rightarrow> w | Some s \<Rightarrow> emit (span_End s) w)"

definition executeWithTrace ::
  "('x, 'c, 'f) deps \<Rightarrow> context \<Rightarrow> string \<Rightarrow> string \<Rightarrow> string \<Rightarrow> bool \<Rightarrow>
   (context \<Rightarrow> 'x world \<Rightarrow> error option \<times> 'x world) \<Rightarrow> 'x world \<Rightarrow> error option \<times> 'x world" where
  "executeWithTrace d ctx0 operation idx documentID enableTrace handler w0 =
     (case Now d w0 of (startTime, w1) \<Rightarrow>
      case (if enableTrace
            then (case pkgtrace_StartSpan ctx0 ''elasticsearch.operation''
                         [attribute_String ''db.system'' ''elasticsearch'',
                          attribute_String ''db.name'' idx,
                          attribute_String ''db.operation'' operation,
                          attribute_String ''db.document_id'' documentID] w1 of
                    ((c, s), w) \<Rightarrow> (c, Some s, w))
            else (ctx0, None, w1)) of (ctx, span, w2) \<Rightarrow>
      case handler ctx w2 of (err, w3) \<Rightarrow>
      case Now d w3 of (endTime, w4) \<Rightarrow>
        let duration = endTime - startTime;
            w5 = (case err of
                    Some e \<Rightarrow>
                      let w = emit (log_Error ctx ''Elasticsearch operation failed''
                                      [zap_String ''operation'' operation,
                                       zap_String ''index'' idx,
                                       zap_String ''document_id'' documentID,
                                       zap_Duration ''duration'' duration,
                                       zap_Error e]) w4
                      in (case span of
                            Some s \<Rightarrow>
                              if enableTrace
                              then emits [span_SetStatus s codes_Error (message e),
                                          span_RecordError s e,
                                          span_SetAttributes s
                                            [attribute_String ''db.status'' ''error'',
                                             attribute_String ''db.error'' (message e)]] w
                              else w
                          | None \<Rightarrow> w)
                  | None \<Rightarrow>
                      let w = emit (log_Info ctx ''Elasticsearch operation success''
                                      [zap_String ''operation'' operation,
                                       zap_String ''index'' idx,
                                       zap_String ''document_id'' documentID,
                                       zap_Duration ''duration'' duration]) w4
                      in (case span of
                            Some s \<Rightarrow>
                              if enableTrace
                              then emits [span_SetStatus s codes_Ok '''',
                                          span_SetAttributes s
                                            [attribute_String ''db.status'' ''success'',
                                             attribute_Float64 ''db.duration_ms''
                                               (Milliseconds duration)]] w
                              else w
                          | None \<Rightarrow> w))
        in (err, deferred_End span w5))"

definition queryWithTrace ::
  "('x, 'c, 'f) deps \<Rightarrow> context \<Rightarrow> string \<Rightarrow> string \<Rightarrow> bool \<Rightarrow>
   (context \<Rightarrow> 'x world \<Rightarrow> ('f gomap \<times> error option) \<times> 'x world) \<Rightarrow> 'x world \<Rightarrow>
   ('f gomap \<times> error option) \<times> 'x world" where
  "queryWithTrace d ctx0 operation idx enableTrace handler w0 =
     (case Now d w0 of (startTime, w1) \<Rightarrow>
      let zero = None in
      case (if enableTrace
            then (case pkgtrace_StartSpan ctx0 ''elasticsearch.operation''
                         [attribute_String ''db.system'' ''elasticsearch'',
                          attribute_String ''db.name'' idx,
                          attribute_String ''db.operation'' operation] w1 of
                    ((c, s), w) \<Rightarrow> (c, Some s, w))
            else (ctx0, None, w1)) of (ctx, span, w2) \<Rightarrow>
      case handler ctx w2 of ((result, err), w3) \<Rightarrow>
      case Now d w3 of (endTime, w4) \<Rightarrow>
        let duration = endTime - startTime
        in (case err of
              Some e \<Rightarrow>
                let w = emit (log_Error ctx ''Elasticsearch operation failed''
                                [zap_String ''operation'' operation,
                                 zap_String ''index'' idx,
                                 zap_Duration ''duration'' duration,
                                 zap_Error e]) w4;
                    w5 = (case span of
                            Some s \<Rightarrow>
                              if enableTrace
                              then emits [span_SetStatus s codes_Error (message e),
                                          span_RecordError s e,
                                          span_SetAttributes s
                                            [attribute_String ''db.status'' ''error'',
                                             attribute_String ''db.error'' (message e)]] w
                              else w
                          | None \<Rightarrow> w)
                in ((zero, Some e), deferred_End span w5)
            | None \<Rightarrow>
                let w = emit (log_Info ctx ''Elasticsearch operation success''
                                [zap_String ''operation'' operation,
                                 zap_String ''index'' idx,
                                 zap_Duration ''duration'' duration]) w4;
                    w5 = (case span of
                            Some s \<Rightarrow>
                              if enableTrace
                              then emits [span_SetStatus s codes_Ok '''',
                                          span_SetAttributes s
                                            [attribute_String ''db.status'' ''success'',
                                             attribute_Float64 ''db.duration_ms''
                                               (Milliseconds duration)]] w
                              else w
                          | None \<Rightarrow> w)
                in ((result, None), deferred_End span w5)))"

section \<open>Client construction\<close>

definition native_config :: "Options \<Rightarrow> es_Config" where
  \<comment> \<open>the part of \<open>NewElasticsearch\<close> that fills \<open>cfg\<close>, from \<open>cfg := elasticsearch.Config{...}\<close>
      to the retry count\<close>
  "native_config opt =
     (let cfg = \<lparr> es_Config.Addresses = Options.Addresses opt,
                 es_Config.Username = '''', es_Config.Password = '''',
                 es_Config.CloudID = '''', es_Config.APIKey = '''',
                 es_Config.MaxRetries = 0 \<rparr>;
          cfg = (if Options.Username opt \<noteq> '''' \<and> Options.Password opt \<noteq> ''''
                 then cfg\<lparr> es_Config.Username := Options.Username opt,
                          es_Config.Password := Options.Password opt \<rparr>
                 else if Options.APIKey opt \<noteq> ''''
                 then cfg\<lparr> es_Config.APIKey := Options.APIKey opt \<rparr>
                 else cfg);
          cfg = (if Options.CloudID opt \<noteq> ''''
                 then cfg\<lparr> es_Config.CloudID := Options.CloudID opt \<rparr>
                 else cfg);
          cfg = (if Options.MaxRetries opt > 0
                 then cfg\<lparr> es_Config.MaxRetries := Options.MaxRetries opt \<rparr>
                 else cfg\<lparr> es_Config.MaxRetries := 3 \<rparr>)
      in cfg)"

definition NewElasticsearch ::
  "('x, 'c, 'f) deps \<Rightarrow> Options option \<Rightarrow> 'x world \<Rightarrow>
   (error + 'c ElasticsearchClient) \<times> 'x world" where
  "NewElasticsearch d opts w =
     (case opts of
        None \<Rightarrow> (Inl (Errorf ''elasticsearch options cannot be nil''), w)
      | Some opt \<Rightarrow>
          if length (Options.Addresses opt) = 0
          then (Inl (Errorf ''elasticsearch addresses cannot be empty''), w)
          else
            let cfg = native_config opt;
                w1 = emit (NewClient cfg) w
            in (case elasticsearch_NewClient d cfg (ext w1) of
                  (Inl err, x) \<Rightarrow>
                    (Inl (Errorf_w ''failed to create elasticsearch client: '' err), w1\<lparr>ext := x\<rparr>)
                | (Inr cl, x) \<Rightarrow>
                    let ctx = WithTimeout Background (Options.DialTimeout opt)
                    in (case req_Do d cl ctx InfoRequest (w1\<lparr>ext := x\<rparr>) of
                          (Inl err, w2) \<Rightarrow>
                            (Inl (Errorf_w ''failed to connect to elasticsearch: '' err), w2)
                        | (Inr res, w2) \<Rightarrow>
                            if IsError res
                            then (Inl (Errorf (''elasticsearch info error: '' @ Response_String d res)), w2)
                            else (Inr \<lparr> client = cl, EnableTrace = Options.EnableTrace opt \<rparr>, w2))))"

section \<open>Document operations\<close>

definition string_of :: "bytes option \<Rightarrow> string" where
  \<comment> \<open>the conversion \<open>string(b)\<close> of a \<open>[]byte\<close>: the nil slice gives the empty string\<close>
  "string_of b = (case b of None \<Rightarrow> [] | Some v \<Rightarrow> v)"

definition bodyBytes_of :: "('x, 'c, 'f) deps \<Rightarrow> 'f any \<Rightarrow> error + bytes option" where
  \<comment> \<open>the type switch that opens both \<open>index\<close> and \<open>Update\<close>; \<open>[]byte(v)\<close> and the output of
      \<open>json.Marshal\<close> are never the nil slice\<close>
  "bodyBytes_of d body =
     (case body of
        VString v \<Rightarrow> Inr (Some v)
      | VBytes v \<Rightarrow> Inr v
      | _ \<Rightarrow> (case json_Marshal d body of
               Inl err \<Rightarrow> Inl (Errorf_w ''failed to marshal document: '' err)
             | Inr b \<Rightarrow> Inr (Some b)))"

definition index ::
  "('x, 'c, 'f) deps \<Rightarrow> 'c ElasticsearchClient \<Rightarrow> context \<Rightarrow> string \<Rightarrow> string \<Rightarrow> 'f any \<Rightarrow>
   'x world \<Rightarrow> error option \<times> 'x world" where
  "index d c ctx idx documentID body w =
     (case bodyBytes_of d body of
        Inl err \<Rightarrow> (Some err, w)
      | Inr bodyBytes \<Rightarrow>
          (case req_Do d (client c) ctx (IndexRequest idx documentID (string_of bodyBytes) ''true'') w of
             (Inl err, w') \<Rightarrow> (Some (Errorf_w ''failed to index document: '' err), w')
           | (Inr res, w') \<Rightarrow>
               if IsError res
               then (Some (Errorf (''elasticsearch index error: '' @ Response_String d res)), w')
               else (None, w')))"

definition Index ::
  "('x, 'c, 'f) deps \<Rightarrow> 'c ElasticsearchClient \<Rightarrow> context \<Rightarrow> string \<Rightarrow> string \<Rightarrow> 'f any \<Rightarrow>
   'x world \<Rightarrow> error option \<times> 'x world" where
  "Index d c ctx idx documentID body =
     executeWithTrace d ctx ''index'' idx documentID (EnableTrace c)
       (\<lambda>ctx. index d c ctx idx documentID body)"

definition get ::
  "('x, 'c, 'f) deps \<Rightarrow> 'c ElasticsearchClient \<Rightarrow> context \<Rightarrow> string \<Rightarrow> string \<Rightarrow>
   'x world \<Rightarrow> ('f gomap \<times> error option) \<times> 'x world" where
  "get d c ctx idx documentID w =
     (case req_Do d (client c) ctx (GetRequest idx documentID) w of
        (Inl err, w') \<Rightarrow> ((None, Some (Errorf_w ''failed to get document: '' err)), w')
      | (Inr res, w') \<Rightarrow>
          if IsError res
          then (if StatusCode res = 404
                then ((None, Some (Errorf ''document not found'')), w')
                else ((None, Some (Errorf (''elasticsearch get error: '' @ Response_String d res))), w'))
          else (case json_Decode d (Body res) of
                  (result, Some err) \<Rightarrow>
                    ((None, Some (Errorf_w ''failed to decode response: '' err)), w')
                | (result, None) \<Rightarrow> ((result, None), w')))"

definition Get ::
  "('x, 'c, 'f) deps \<Rightarrow> 'c ElasticsearchClient \<Rightarrow> context \<Rightarrow> string \<Rightarrow> string \<Rightarrow>
   'x world \<Rightarrow> ('f gomap \<times> error option) \<times> 'x world" where
  "Get d c ctx idx documentID =
     queryWithTrace d ctx ''get'' idx (EnableTrace c) (\<lambda>ctx. get d c ctx idx documentID)"

definition delete ::
  "('x, 'c, 'f) deps \<Rightarrow> 'c ElasticsearchClient \<Rightarrow> context \<Rightarrow> string \<Rightarrow> string \<Rightarrow>
   'x world \<Rightarrow> error option \<times> 'x world" where
  "delete d c ctx idx documentID w =
     (case req_Do d (client c) ctx (DeleteRequest idx documentID ''true'') w of
        (Inl err, w') \<Rightarrow> (Some (Errorf_w ''failed to delete document: '' err), w')
      | (Inr res, w') \<Rightarrow>
          if IsError res
          then (if StatusCode res = 404
                then (Some (Errorf ''document not found''), w')
                else (Some (Errorf (''elasticsearch delete error: '' @ Response_String d res)), w'))
          else (None, w'))"

definition Delete ::
  "('x, 'c, 'f) deps \<Rightarrow> 'c ElasticsearchClient \<Rightarrow> context \<Rightarrow> string \<Rightarrow> string \<Rightarrow>
   'x world \<Rightarrow> error option \<times> 'x world" where
  "Delete d c ctx idx documentID =
     executeWithTrace d ctx ''delete'' idx documentID (EnableTrace c)
       (\<lambda>ctx. delete d c ctx idx documentID)"

definition executeQueryRequest ::
  "('x, 'c, 'f) deps \<Rightarrow> 'c ElasticsearchClient \<Rightarrow> context \<Rightarrow> string \<Rightarrow> 'f gomap \<Rightarrow>
   (string list \<Rightarrow> bytes \<Rightarrow> request) \<Rightarrow> string \<Rightarrow>
   'x world \<Rightarrow> ('f gomap \<times> error option) \<times> 'x world" where
  "executeQueryRequest d c ctx idx query reqFunc operation w =
     (case json_Marshal d (VMap query) of
        Inl err \<Rightarrow> ((None, Some (Errorf_w ''failed to marshal query: '' err)), w)
      | Inr queryBytes \<Rightarrow>
          (case req_Do d (client c) ctx (reqFunc [idx] queryBytes) w of
             (Inl err, w') \<Rightarrow>
               ((None, Some (Errorf_w (''failed to '' @ operation @ '': '') err)), w')
           | (Inr res, w') \<Rightarrow>
               if IsError res
               then ((None, Some (Errorf (''elasticsearch '' @ operation @ '' error: ''
                                           @ Response_String d res))), w')
               else (case json_Decode d (Body res) of
                       (result, Some err) \<Rightarrow>
                         ((None, Some (Errorf_w ''failed to decode response: '' err)), w')
                     | (result, None) \<Rightarrow> ((result, None), w'))))"

definition search ::
  "('x, 'c, 'f) deps \<Rightarrow> 'c ElasticsearchClient \<Rightarrow> context \<Rightarrow> string \<Rightarrow> 'f gomap \<Rightarrow>
   'x world \<Rightarrow> ('f gomap \<times> error option) \<times> 'x world" where
  "search d c ctx idx query =
     executeQueryRequest d c ctx idx query (\<lambda>indices body. SearchRequest indices body) ''search''"

definition Search ::
  "('x, 'c, 'f) deps \<Rightarrow> 'c ElasticsearchClient \<Rightarrow> context \<Rightarrow> string \<Rightarrow> 'f gomap \<Rightarrow>
   'x world \<Rightarrow> ('f gomap \<times> error option) \<times> 'x world" where
  "Search d c ctx idx query =
     queryWithTrace d ctx ''search'' idx (EnableTrace c) (\<lambda>ctx. search d c ctx idx query)"

definition bulk ::
  "('x, 'c, 'f) deps \<Rightarrow> 'c ElasticsearchClient \<Rightarrow> context \<Rightarrow> string \<Rightarrow>
   'x world \<Rightarrow> error option \<times> 'x world" where
  "bulk d c ctx body w =
     (case req_Do d (client c) ctx (BulkRequest body ''true'') w of
        (Inl err, w') \<Rightarrow> (Some (Errorf_w ''failed to bulk: '' err), w')
      | (Inr res, w') \<Rightarrow>
          if IsError res
          then (Some (Errorf (''elasticsearch bulk error: '' @ Response_String d res)), w')
          else (None, w'))"

definition Bulk ::
  "('x, 'c, 'f) deps \<Rightarrow> 'c ElasticsearchClient \<Rightarrow> context \<Rightarrow> string \<Rightarrow>
   'x world \<Rightarrow> error option \<times> 'x world" where
  "Bulk d c ctx body =
     executeWithTrace d ctx ''bulk'' '''' '''' (EnableTrace c) (\<lambda>ctx. bulk d c ctx body)"

definition ExistsIndex ::
  "('x, 'c, 'f) deps \<Rightarrow> 'c ElasticsearchClient \<Rightarrow> context \<Rightarrow> string \<Rightarrow>
   'x world \<Rightarrow> (bool \<times> error option) \<times> 'x world" where
  "ExistsIndex d c ctx idx w =
     (case req_Do d (client c) ctx (IndicesExistsRequest [idx]) w of
        (Inl err, w') \<Rightarrow> ((False, Some (Errorf_w ''failed to check index: '' err)), w')
      | (Inr res, w') \<Rightarrow>
          if StatusCode res = 404 then ((False, None), w')
          else if IsError res
          then ((False, Some (Errorf (''elasticsearch exists index error: ''
                                       @ Response_String d res))), w')
          else ((True, None), w'))"

definition Update ::
  "('x, 'c, 'f) deps \<Rightarrow> 'c ElasticsearchClient \<Rightarrow> context \<Rightarrow> string \<Rightarrow> string \<Rightarrow> 'f any \<Rightarrow>
   'x world \<Rightarrow> error option \<times> 'x world" where
  "Update d c ctx idx documentID body w =
     (case bodyBytes_of d body of
        Inl err \<Rightarrow> (Some err, w)
      | Inr bodyBytes \<Rightarrow>
          let updateBody = Some [(''doc'', VRawMessage bodyBytes)]
          in (case json_Marshal d (VMap updateBody) of
                Inl err \<Rightarrow> (Some (Errorf_w ''failed to marshal update body: '' err), w)
              | Inr updateBodyBytes \<Rightarrow>
                  (case req_Do d (client c) ctx
                          (UpdateRequest idx documentID updateBodyBytes ''true'') w of
                     (Inl err, w') \<Rightarrow> (Some (Errorf_w ''failed to update document: '' err), w')
                   | (Inr res, w') \<Rightarrow>
                       if IsError res
                       then (if StatusCode res = 404
                             then (Some (Errorf ''document not found''), w')
                             else (Some (Errorf (''elasticsearch update error: ''
                                                  @ Response_String d res)), w'))
                       else (None, w'))))"

definition UpdateByQuery ::
  "('x, 'c, 'f) deps \<Rightarrow> 'c ElasticsearchClient \<Rightarrow> context \<Rightarrow> string \<Rightarrow> 'f gomap \<Rightarrow> 'f gomap \<Rightarrow>
   'x world \<Rightarrow> ('f gomap \<times> error option) \<times> 'x world" where
  "UpdateByQuery d c ctx idx query script w =
     (let updateQuery = Some [(''query'', VMap query)];
          updateQuery = (if script \<noteq> None then map_store updateQuery ''script'' (VMap script)
                         else updateQuery)
      in (case json_Marshal d (VMap updateQuery) of
            Inl err \<Rightarrow> ((None, Some (Errorf_w ''failed to marshal update query: '' err)), w)
          | Inr queryBytes \<Rightarrow>
              (case req_Do d (client c) ctx (UpdateByQueryRequest [idx] queryBytes) w of
                 (Inl err, w') \<Rightarrow> ((None, Some (Errorf_w ''failed to update by query: '' err)), w')
               | (Inr res, w') \<Rightarrow>
                   if IsError res
                   then ((None, Some (Errorf (''elasticsearch update by query error: ''
                                               @ Response_String d res))), w')
                   else (case json_Decode d (Body res) of
                           (result, Some err) \<Rightarrow>
                             ((None, Some (Errorf_w ''failed to decode response: '' err)), w')
                         | (result, None) \<Rightarrow> ((result, None), w')))))"

definition Count ::
  "('x, 'c, 'f) deps \<Rightarrow> 'c ElasticsearchClient \<Rightarrow> context \<Rightarrow> string \<Rightarrow> 'f gomap \<Rightarrow>
   'x world \<Rightarrow> (int \<times> error option) \<times> 'x world" where
  "Count d c ctx idx query w =
     (case (if query \<noteq> None
            then (case json_Marshal d (VMap query) of
                    Inl err \<Rightarrow> Inl (Errorf_w ''failed to marshal query: '' err)
                  | Inr b \<Rightarrow> Inr b)
            else Inr []) of
        Inl err \<Rightarrow> ((0, Some err), w)
      | Inr queryBytes \<Rightarrow>
          let req = CountRequest [idx] (if length queryBytes > 0 then Some queryBytes else None)
          in (case req_Do d (client c) ctx req w of
                (Inl err, w') \<Rightarrow> ((0, Some (Errorf_w ''failed to count: '' err)), w')
              | (Inr res, w') \<Rightarrow>
                  if IsError res
                  then ((0, Some (Errorf (''elasticsearch count error: ''
                                           @ Response_String d res))), w')
                  else (case json_Decode d (Body res) of
                          (result, Some err) \<Rightarrow>
                            ((0, Some (Errorf_w ''failed to decode response: '' err)), w')
                        | (result, None) \<Rightarrow>
                            (case map_index result ''count'' of
                               VFloat64 count \<Rightarrow> ((int64 d count, None), w')
                             | _ \<Rightarrow> ((0, Some (Errorf ''invalid count response format'')), w')))))"

definition DeleteByQuery ::
  "('x, 'c, 'f) deps \<Rightarrow> 'c ElasticsearchClient \<Rightarrow> context \<Rightarrow> string \<Rightarrow> 'f gomap \<Rightarrow>
   'x world \<Rightarrow> ('f gomap \<times> error option) \<times> 'x world" where
  "DeleteByQuery d c ctx idx query =
     executeQueryRequest d c ctx idx query
       (\<lambda>indices body. DeleteByQueryRequest indices body) ''delete by query''"

fun requests_of :: "event list \<Rightarrow> request list" where
  "requests_of [] = []"
| "requests_of (Do ctx req # evs) = req # requests_of evs"
| "requests_of (ev # evs) = requests_of evs"

definition sent :: "'x world \<Rightarrow> request list" where
  \<comment> \<open>the requests that have gone to the transport, oldest first\<close>
  "sent w = requests_of (events w)"

fun is_string_or_bytes :: "'f any \<Rightarrow> bool" where
  \<comment> \<open>the values the first two cases of the type switch on the body catch\<close>
  "is_string_or_bytes (VString v) = True"
| "is_string_or_bytes (VBytes v) = True"
| "is_string_or_bytes _ = False"

fun is_observability :: "event \<Rightarrow> bool" where
  \<comment> \<open>the calls on the tracing and logging collaborators, as against the construction of a
      client and the sending of a request\<close>
  "is_observability (NewClient cfg) = False"
| "is_observability (Do ctx req) = False"
| "is_observability _ = True"

section \<open>Concrete inputs\<close>

text \<open>
  A configuration and stand-ins for the collaborators, on which the theorems below are
  evaluated: a clock that ticks at every reading, a transport that answers every request
  through a given function, and a small encoder and decoder.
\<close>

definition cfg0 :: Config where
  "cfg0 = \<lparr> Enabled = True, Config.Addresses = [''http://localhost:9200''],
            Config.Username = ''elastic'', Config.Password = ''secret'',
            Config.CloudID = '''', Config.APIKey = '''', Config.EnableTLS = False,
            Config.CACert = '''', Config.DialTimeout = 0, Config.ReadTimeout = 5000000000,
            Config.WriteTimeout = 0, Config.MaxRetries = 0, Config.EnableTrace = True \<rparr>"

definition count_body :: bytes where
  \<open>count_body = ''{"count":3}''\<close>

definition doc_body :: bytes where
  \<open>doc_body = ''{"title":"x"}''\<close>

definition update_body :: bytes where
  \<open>update_body = ''{"doc":{"title":"x"}}''\<close>

definition took_count_body :: bytes where
  \<open>took_count_body = ''{"took":5,"count":3}''\<close>

definition count_string_body :: bytes where
  \<open>count_string_body = ''{"took":5,"count":"3"}''\<close>

definition query_body :: bytes where
  \<open>query_body = ''{"q":"x"}''\<close>

fun stub_Marshal :: "int any \<Rightarrow> error + bytes" where
  "stub_Marshal (VOther n) = Inl (Errorf ''json: unsupported type'')"
| "stub_Marshal (VRawMessage None) = Inr ''null''"
| "stub_Marshal (VRawMessage (Some b)) =
     (if b = [] then Inl (Errorf ''unexpected end of JSON input'') else Inr b)"
| "stub_Marshal (VMap (Some [(k, VRawMessage None)])) =
     Inr (''{'' @ [CHR 0x22] @ k @ [CHR 0x22] @ '':null}'')"
| "stub_Marshal (VMap (Some [(k, VRawMessage (Some b))])) =
     (if b = [] then Inl (Errorf ''unexpected end of JSON input'')
      else Inr (''{'' @ [CHR 0x22] @ k @ [CHR 0x22] @ '':'' @ b @ ''}''))"
| "stub_Marshal (VMap (Some [(k, VString s)])) =
     Inr (''{'' @ [CHR 0x22] @ k @ [CHR 0x22] @ '':'' @ [CHR 0x22] @ s @ [CHR 0x22] @ ''}'')"
| "stub_Marshal (VMap None) = Inr ''null''"
| "stub_Marshal v = Inr ''{}''"

definition stub_Decode :: "bytes \<Rightarrow> int gomap \<times> error option" where
  "stub_Decode b =
     (if b = count_body then (Some [(''count'', VFloat64 3)], None)
      else if b = doc_body then (Some [(''title'', VString ''x'')], None)
      else if b = ''{}'' then (Some [], None)
      else if b = ''null'' then (None, None)
      else if b = took_count_body
      then (Some [(''took'', VFloat64 5), (''count'', VFloat64 3)], None)
      else if b = count_string_body
      then (Some [(''took'', VFloat64 5), (''count'', VString ''3'')], None)
      else (Some [(''partial'', VBool True)], Some (Errorf ''invalid character'')))"

definition stub :: "(request \<Rightarrow> error + Response) \<Rightarrow> (nat, unit, int) deps" where
  "stub srv =
     \<lparr> time_Now = (\<lambda>x. (int x * 1000000, Suc x)),
       elasticsearch_NewClient = (\<lambda>cfg x. (Inr (), x)),
       Perform = (\<lambda>cl ctx req x. (srv req, x)),
       json_Marshal = stub_Marshal,
       json_Decode = stub_Decode,
       Response_String = (\<lambda>res. ''[response]''),
       int64 = (\<lambda>f. f) \<rparr>"

definition answer :: "int \<Rightarrow> bytes \<Rightarrow> request \<Rightarrow> error + Response" where
  "answer status body req = Inr \<lparr> StatusCode = status, Body = body \<rparr>"

definition refuse :: "request \<Rightarrow> error + Response" where
  "refuse req = Inl (Errorf ''connection refused'')"

definition at_only ::
  "context \<Rightarrow> nat \<Rightarrow> request \<Rightarrow> error + Response \<Rightarrow> (nat, unit, int) deps" where
  \<comment> \<open>a transport that answers one request, in one context and one outside state, and
      gives up everywhere else\<close>
  "at_only ctx0 x0 req0 r =
     (stub refuse)
       \<lparr> Perform := (\<lambda>cl ctx req x.
            (if ctx = ctx0 \<and> x = x0 \<and> req = req0 then r
             else Inl (Errorf ''context deadline exceeded''), x)) \<rparr>"

definition w0 :: "nat world" where
  "w0 = \<lparr> events = [], ext = 0 \<rparr>"

definition c0 :: "unit ElasticsearchClient" where
  "c0 = \<lparr> client = (), EnableTrace = True \<rparr>"

definition opts0 :: Options where
  "opts0 = \<lparr> Options.Addresses = [''http://localhost:9200''],
             Options.Username = ''elastic'', Options.Password = ''secret'',
             Options.CloudID = ''deployment:abc'', Options.APIKey = ''key'',
             Options.EnableTLS = False, Options.CACert = '''',
             Options.DialTimeout = 30000000000, Options.ReadTimeout = 30000000000,
             Options.WriteTimeout = 30000000000, Options.MaxRetries = 0,
             Options.EnableTrace = True \<rparr>"

section \<open>Worlds and events\<close>

lemma events_emit [simp]: "events (emit ev w) = events w @ [ev]"
  by (simp add: emit_def)

lemma ext_emit [simp]: "ext (emit ev w) = ext w"
  by (simp add: emit_def)

lemma events_emits [simp]: "events (emits evs w) = events w @ evs"
  by (simp add: emits_def)

lemma ext_emits [simp]: "ext (emits evs w) = ext w"
  by (simp add: emits_def)

lemma requests_of_append [simp]: "requests_of (xs @ ys) = requests_of xs @ requests_of ys"
  by (induction xs rule: requests_of.induct) simp_all

lemma events_Now [simp]: "events (snd (Now d w)) = events w"
  by (simp add: Now_def split: prod.splits)

lemma req_Do_fst: "fst (req_Do d cl ctx req w) = fst (Perform d cl ctx req (ext w))"
  by (simp add: req_Do_def split: prod.splits)

lemma req_Do_events [simp]:
  "events (snd (req_Do d cl ctx req w)) = events w @ [Do ctx req]"
  by (simp add: req_Do_def split: prod.splits)

lemma req_Do_sent [simp]: "sent (snd (req_Do d cl ctx req w)) = sent w @ [req]"
  by (simp add: sent_def)

lemma sent_emit [simp]: "sent (emit ev w) = sent w @ requests_of [ev]"
  by (simp add: sent_def)

lemma sent_emits [simp]: "sent (emits evs w) = sent w @ requests_of evs"
  by (simp add: sent_def)

lemma sent_Now [simp]: "sent (snd (Now d w)) = sent w"
  by (simp add: sent_def)

lemma sent_deferred_End [simp]: "sent (deferred_End sp w) = sent w"
  by (cases sp) (simp_all add: deferred_End_def)

lemma sent_StartSpan [simp]: "sent (snd (pkgtrace_StartSpan ctx name attrs w)) = sent w"
  by (simp add: pkgtrace_StartSpan_def Let_def)

lemma fst_StartSpan [simp]:
  "fst (pkgtrace_StartSpan ctx name attrs w) = (WithSpan ctx (length (events w)), length (events w))"
  by (simp add: pkgtrace_StartSpan_def Let_def)

lemma snd_StartSpan:
  "snd (pkgtrace_StartSpan ctx name attrs w) = emit (StartSpan ctx name attrs (length (events w))) w"
  by (simp add: pkgtrace_StartSpan_def Let_def)

lemma message_Errorf [simp]: "message (Errorf m) = m"
  by (simp add: Errorf_def)

lemma message_Errorf_w [simp]: "message (Errorf_w p e) = p @ message e"
  by (simp add: Errorf_w_def)

lemma stub_simps [simp]:
  "Perform (stub srv) cl ctx req x = (srv req, x)"
  "json_Marshal (stub srv) = stub_Marshal"
  "json_Decode (stub srv) = stub_Decode"
  "Response_String (stub srv) res = ''[response]''"
  "int64 (stub srv) f = f"
  "time_Now (stub srv) x = (int x * 1000000, Suc x)"
  "elasticsearch_NewClient (stub srv) cfg x = (Inr (), x)"
  by (simp_all add: stub_def)

lemma stub_Decode_simps [simp]:
  "stub_Decode count_body = (Some [(''count'', VFloat64 3)], None)"
  "stub_Decode doc_body = (Some [(''title'', VString ''x'')], None)"
  "stub_Decode ''{}'' = (Some [], None)"
  "stub_Decode ''{bad'' = (Some [(''partial'', VBool True)], Some (Errorf ''invalid character''))"
  "stub_Decode took_count_body = (Some [(''took'', VFloat64 5), (''count'', VFloat64 3)], None)"
  "stub_Decode count_string_body =
     (Some [(''took'', VFloat64 5), (''count'', VString ''3'')], None)"
  by (simp_all add: stub_Decode_def count_body_def doc_body_def took_count_body_def
        count_string_body_def)

lemma at_only_simps [simp]:
  "Perform (at_only ctx0 x0 req0 r) cl ctx req x =
     (if ctx = ctx0 \<and> x = x0 \<and> req = req0 then r
      else Inl (Errorf ''context deadline exceeded''), x)"
  "json_Marshal (at_only ctx0 x0 req0 r) = stub_Marshal"
  "json_Decode (at_only ctx0 x0 req0 r) = stub_Decode"
  "Response_String (at_only ctx0 x0 req0 r) res = ''[response]''"
  "int64 (at_only ctx0 x0 req0 r) f = f"
  "time_Now (at_only ctx0 x0 req0 r) x = (int x * 1000000, Suc x)"
  by (simp_all add: at_only_def stub_def)

lemma ext_Now: "ext (snd (Now d w)) = snd (time_Now d (ext w))"
  by (simp add: Now_def split: prod.splits)

lemma ext_deferred_End [simp]: "ext (deferred_End sp w) = ext w"
  by (cases sp) (simp_all add: deferred_End_def)

lemma events_deferred_End:
  "events (deferred_End sp w) = events w @ (case sp of None \<Rightarrow> [] | Some s \<Rightarrow> [span_End s])"
  by (cases sp) (simp_all add: deferred_End_def)

lemma stub_Marshal_simps [simp]:
  "stub_Marshal (VMap (Some [(''title'', VString ''x'')])) = Inr doc_body"
  "stub_Marshal (VMap (Some [(''doc'', VRawMessage (Some doc_body))])) = Inr update_body"
  by (simp_all add: doc_body_def update_body_def)

section \<open>The decorators and the wrapped work\<close>

lemma executeWithTrace_off:
  "fst (executeWithTrace d ctx operation idx documentID False h w) = fst (h ctx (snd (Now d w)))
   \<and> sent (snd (executeWithTrace d ctx operation idx documentID False h w)) =
       sent (snd (h ctx (snd (Now d w))))"
proof -
  obtain t0 w1 where n0: "Now d w = (t0, w1)" by (cases "Now d w")
  obtain err w3 where hr: "h ctx w1 = (err, w3)" by (cases "h ctx w1")
  obtain t1 w4 where n1: "Now d w3 = (t1, w4)" by (cases "Now d w3")
  have s4: "sent w4 = sent w3" using sent_Now[of d w3] n1 by simp
  show ?thesis
    unfolding executeWithTrace_def n0
    using hr n1 s4 by (cases err) (simp_all add: Let_def)
qed

lemma executeWithTrace_on:
  "fst (executeWithTrace d ctx operation idx documentID True h w) =
     fst (h (WithSpan ctx (length (events w)))
            (emit (StartSpan ctx ''elasticsearch.operation''
                     [attribute_String ''db.system'' ''elasticsearch'',
                      attribute_String ''db.name'' idx,
                      attribute_String ''db.operation'' operation,
                      attribute_String ''db.document_id'' documentID] (length (events w)))
               (snd (Now d w))))
   \<and> sent (snd (executeWithTrace d ctx operation idx documentID True h w)) =
     sent (snd (h (WithSpan ctx (length (events w)))
            (emit (StartSpan ctx ''elasticsearch.operation''
                     [attribute_String ''db.system'' ''elasticsearch'',
                      attribute_String ''db.name'' idx,
                      attribute_String ''db.operation'' operation,
                      attribute_String ''db.document_id'' documentID] (length (events w)))
               (snd (Now d w)))))"
proof -
  let ?attrs = "[attribute_String ''db.system'' ''elasticsearch'',
                      attribute_String ''db.name'' idx,
                      attribute_String ''db.operation'' operation,
                      attribute_String ''db.document_id'' documentID]"
  obtain t0 w1 where n0: "Now d w = (t0, w1)" by (cases "Now d w")
  have e1: "events w1 = events w" using events_Now[of d w] n0 by simp
  let ?c = "WithSpan ctx (length (events w))"
  let ?w2 = "emit (StartSpan ctx ''elasticsearch.operation'' ?attrs (length (events w))) w1"
  have sp: "pkgtrace_StartSpan ctx ''elasticsearch.operation'' ?attrs w1
              = ((?c, length (events w)), ?w2)"
    by (simp add: pkgtrace_StartSpan_def Let_def e1)
  obtain err w3 where hr: "h ?c ?w2 = (err, w3)" by (cases "h ?c ?w2")
  obtain t1 w4 where n1: "Now d w3 = (t1, w4)" by (cases "Now d w3")
  have s4: "sent w4 = sent w3" using sent_Now[of d w3] n1 by simp
  show ?thesis
    unfolding executeWithTrace_def n0
    using hr n1 s4 sp by (cases err) (simp_all add: Let_def)
qed

lemma queryWithTrace_off:
  "fst (queryWithTrace d ctx operation idx False h w) =
     (case snd (fst (h ctx (snd (Now d w)))) of
        Some e \<Rightarrow> (None, Some e)
      | None \<Rightarrow> (fst (fst (h ctx (snd (Now d w)))), None))
   \<and> sent (snd (queryWithTrace d ctx operation idx False h w)) =
       sent (snd (h ctx (snd (Now d w))))"
proof -
  obtain t0 w1 where n0: "Now d w = (t0, w1)" by (cases "Now d w")
  obtain result err w3 where hr: "h ctx w1 = ((result, err), w3)"
    by (cases "h ctx w1") auto
  obtain t1 w4 where n1: "Now d w3 = (t1, w4)" by (cases "Now d w3")
  have s4: "sent w4 = sent w3" using sent_Now[of d w3] n1 by simp
  show ?thesis
    unfolding queryWithTrace_def n0
    using hr n1 s4 by (cases err) (simp_all add: Let_def)
qed

lemma queryWithTrace_on:
  "fst (queryWithTrace d ctx operation idx True h w) =
     (case snd (fst (h (WithSpan ctx (length (events w)))
            (emit (StartSpan ctx ''elasticsearch.operation''
                     [attribute_String ''db.system'' ''elasticsearch'',
                      attribute_String ''db.name'' idx,
                      attribute_String ''db.operation'' operation] (length (events w)))
               (snd (Now d w))))) of
        Some e \<Rightarrow> (None, Some e)
      | None \<Rightarrow> (fst (fst (h (WithSpan ctx (length (events w)))
            (emit (StartSpan ctx ''elasticsearch.operation''
                     [attribute_String ''db.system'' ''elasticsearch'',
                      attribute_String ''db.name'' idx,
                      attribute_String ''db.operation'' operation] (length (events w)))
               (snd (Now d w))))), None))
   \<and> sent (snd (queryWithTrace d ctx operation idx True h w)) =
     sent (snd (h (WithSpan ctx (length (events w)))
            (emit (StartSpan ctx ''elasticsearch.operation''
                     [attribute_String ''db.system'' ''elasticsearch'',
                      attribute_String ''db.name'' idx,
                      attribute_String ''db.operation'' operation] (length (events w)))
               (snd (Now d w)))))"
proof -
  let ?attrs = "[attribute_String ''db.system'' ''elasticsearch'',
                      attribute_String ''db.name'' idx,
                      attribute_String ''db.operation'' operation]"
  obtain t0 w1 where n0: "Now d w = (t0, w1)" by (cases "Now d w")
  have e1: "events w1 = events w" using events_Now[of d w] n0 by simp
  let ?c = "WithSpan ctx (length (events w))"
  let ?w2 = "emit (StartSpan ctx ''elasticsearch.operation'' ?attrs (length (events w))) w1"
  have sp: "pkgtrace_StartSpan ctx ''elasticsearch.operation'' ?attrs w1
              = ((?c, length (events w)), ?w2)"
    by (simp add: pkgtrace_StartSpan_def Let_def e1)
  obtain result err w3 where hr: "h ?c ?w2 = ((result, err), w3)"
    by (cases "h ?c ?w2") auto
  obtain t1 w4 where n1: "Now d w3 = (t1, w4)" by (cases "Now d w3")
  have s4: "sent w4 = sent w3" using sent_Now[of d w3] n1 by simp
  show ?thesis
    unfolding queryWithTrace_def n0
    using hr n1 s4 sp by (cases err) (simp_all add: Let_def)
qed

text \<open>Whatever holds of the wrapped work in every context and every world with the same
  requests behind it holds of the decorated call.\<close>

lemma executeWithTrace_rule:
  assumes "\<And>ctx' w'. sent w' = sent w \<Longrightarrow> Q (fst (h ctx' w')) (sent (snd (h ctx' w')))"
  shows "Q (fst (executeWithTrace d ctx operation idx documentID en h w))
           (sent (snd (executeWithTrace d ctx operation idx documentID en h w)))"
proof (cases en)
  case True
  then have en: "en = True" by simp
  show ?thesis
    unfolding en
    using executeWithTrace_on[of d ctx operation idx documentID h w]
      assms[of "emit (StartSpan ctx ''elasticsearch.operation''
                     [attribute_String ''db.system'' ''elasticsearch'',
                      attribute_String ''db.name'' idx,
                      attribute_String ''db.operation'' operation,
                      attribute_String ''db.document_id'' documentID] (length (events w)))
               (snd (Now d w))" "WithSpan ctx (length (events w))"]
    by simp
next
  case False
  then have en: "en = False" by simp
  show ?thesis
    unfolding en
    using executeWithTrace_off[of d ctx operation idx documentID h w]
      assms[of "snd (Now d w)" ctx]
    by simp
qed

lemma queryWithTrace_rule:
  assumes "\<And>ctx' w'. sent w' = sent w \<Longrightarrow>
      Q (case snd (fst (h ctx' w')) of Some e \<Rightarrow> (None, Some e)
                                     | None \<Rightarrow> (fst (fst (h ctx' w')), None))
        (sent (snd (h ctx' w')))"
  shows "Q (fst (queryWithTrace d ctx operation idx en h w))
           (sent (snd (queryWithTrace d ctx operation idx en h w)))"
proof (cases en)
  case True
  then have en: "en = True" by simp
  show ?thesis
    unfolding en
    using queryWithTrace_on[of d ctx operation idx h w]
      assms[of "emit (StartSpan ctx ''elasticsearch.operation''
                     [attribute_String ''db.system'' ''elasticsearch'',
                      attribute_String ''db.name'' idx,
                      attribute_String ''db.operation'' operation] (length (events w)))
               (snd (Now d w))" "WithSpan ctx (length (events w))"]
    by simp
next
  case False
  then have en: "en = False" by simp
  show ?thesis
    unfolding en
    using queryWithTrace_off[of d ctx operation idx h w]
      assms[of "snd (Now d w)" ctx]
    by simp
qed

section \<open>Index existence\<close>

text \<open>
  C1. Where the transport answers the existence request with a response, \<open>ExistsIndex\<close>
  returns \<open>(false, nil)\<close> on status 404, \<open>(true, nil)\<close> on a status from 200 to 299, and
  \<open>false\<close> with an error on every other status above 299. Status 404 lies in the error
  range of \<open>IsError\<close> itself, so the answer \<open>(false, nil)\<close> there shows that the 404 test
  comes before the generic error test.
\<close>

theorem ExistsIndex_by_status:
  "fst (Perform d (client c) ctx (IndicesExistsRequest [idx]) (ext w)) = Inr res \<longrightarrow>
     (StatusCode res = 404 \<longrightarrow>
        IsError res \<and> fst (ExistsIndex d c ctx idx w) = (False, None))
   \<and> (200 \<le> StatusCode res \<and> StatusCode res \<le> 299 \<longrightarrow>
        fst (ExistsIndex d c ctx idx w) = (True, None))
   \<and> (299 < StatusCode res \<and> StatusCode res \<noteq> 404 \<longrightarrow>
        fst (ExistsIndex d c ctx idx w) =
          (False, Some (Errorf (''elasticsearch exists index error: '' @ Response_String d res))))"
proof
  assume a: "fst (Perform d (client c) ctx (IndicesExistsRequest [idx]) (ext w)) = Inr res"
  obtain r w' where r: "req_Do d (client c) ctx (IndicesExistsRequest [idx]) w = (r, w')"
    by (cases "req_Do d (client c) ctx (IndicesExistsRequest [idx]) w")
  with a req_Do_fst[of d "client c" ctx "IndicesExistsRequest [idx]" w] have "r = Inr res"
    by simp
  with r show "(StatusCode res = 404 \<longrightarrow>
        IsError res \<and> fst (ExistsIndex d c ctx idx w) = (False, None))
   \<and> (200 \<le> StatusCode res \<and> StatusCode res \<le> 299 \<longrightarrow>
        fst (ExistsIndex d c ctx idx w) = (True, None))
   \<and> (299 < StatusCode res \<and> StatusCode res \<noteq> 404 \<longrightarrow>
        fst (ExistsIndex d c ctx idx w) =
          (False, Some (Errorf (''elasticsearch exists index error: '' @ Response_String d res))))"
    by (simp add: ExistsIndex_def IsError_def)
qed

theorem ExistsIndex_by_status_witness:
  "fst (ExistsIndex (stub (answer 404 [])) c0 Background ''idx'' w0) = (False, None)
   \<and> fst (ExistsIndex (stub (answer 200 [])) c0 Background ''idx'' w0) = (True, None)
   \<and> fst (ExistsIndex (stub (answer 500 [])) c0 Background ''idx'' w0) =
       (False, Some (Errorf ''elasticsearch exists index error: [response]''))"
proof -
  have 1: "fst (Perform (stub (answer s [])) (client c0) Background (IndicesExistsRequest [''idx''])
             (ext w0)) = Inr \<lparr> StatusCode = s, Body = [] \<rparr>" for s
    by (simp add: stub_def answer_def)
  show ?thesis
    using ExistsIndex_by_status[of "stub (answer 404 [])" c0 Background "''idx''" w0
            "\<lparr> StatusCode = 404, Body = [] \<rparr>"]
          ExistsIndex_by_status[of "stub (answer 200 [])" c0 Background "''idx''" w0
            "\<lparr> StatusCode = 200, Body = [] \<rparr>"]
          ExistsIndex_by_status[of "stub (answer 500 [])" c0 Background "''idx''" w0
            "\<lparr> StatusCode = 500, Body = [] \<rparr>"]
          1[of 404] 1[of 200] 1[of 500]
    by (simp add: stub_def)
qed

section \<open>Body normalization in Index and Update\<close>

lemma bodyBytes_of_cases:
  "bodyBytes_of d (VString s) = Inr (Some s)"
  "bodyBytes_of d (VBytes bs) = Inr bs"
  "\<not> is_string_or_bytes body \<Longrightarrow> json_Marshal d body = Inr s \<Longrightarrow>
     bodyBytes_of d body = Inr (Some s)"
  "\<not> is_string_or_bytes body \<Longrightarrow> json_Marshal d body = Inl e \<Longrightarrow>
     bodyBytes_of d body = Inl (Errorf_w ''failed to marshal document: '' e)"
  by (cases body; simp add: bodyBytes_of_def)+

lemma index_sends:
  "bodyBytes_of d body = Inr b \<Longrightarrow>
   sent (snd (index d c ctx idx documentID body w)) = sent w @ [IndexRequest idx documentID (string_of b) ''true'']"
proof -
  assume b: "bodyBytes_of d body = Inr b"
  obtain r w' where rd:
    "req_Do d (client c) ctx (IndexRequest idx documentID (string_of b) ''true'') w = (r, w')"
    by (cases "req_Do d (client c) ctx (IndexRequest idx documentID (string_of b) ''true'') w")
  have "sent w' = sent w @ [IndexRequest idx documentID (string_of b) ''true'']"
    using req_Do_sent[of d "client c" ctx "IndexRequest idx documentID (string_of b) ''true''" w] rd by simp
  then show ?thesis
    unfolding index_def b using rd by (simp split: sum.splits)
qed

lemma index_fails_locally:
  "bodyBytes_of d body = Inl e \<Longrightarrow> index d c ctx idx documentID body w = (Some e, w)"
  by (simp add: index_def)

lemma Index_sends:
  assumes "bodyBytes_of d body = Inr b"
  shows "sent (snd (Index d c ctx idx documentID body w)) =
           sent w @ [IndexRequest idx documentID (string_of b) ''true'']"
  unfolding Index_def
  by (rule executeWithTrace_rule[where Q = "\<lambda>r s. s = sent w @ [IndexRequest idx documentID (string_of b) ''true'']"])
     (simp add: index_sends[OF assms])

lemma Index_fails_locally:
  assumes "bodyBytes_of d body = Inl e"
  shows "fst (Index d c ctx idx documentID body w) = Some e \<and>
         sent (snd (Index d c ctx idx documentID body w)) = sent w"
  unfolding Index_def
  by (rule executeWithTrace_rule[where Q = "\<lambda>r s. r = Some e \<and> s = sent w"])
     (simp add: index_fails_locally[OF assms])

lemma Update_sends:
  assumes b: "bodyBytes_of d body = Inr b"
    and u: "json_Marshal d (VMap (Some [(''doc'', VRawMessage b)])) = Inr u"
  shows "sent (snd (Update d c ctx idx documentID body w)) =
           sent w @ [UpdateRequest idx documentID u ''true'']"
proof -
  obtain r w' where rd:
    "req_Do d (client c) ctx (UpdateRequest idx documentID u ''true'') w = (r, w')"
    by (cases "req_Do d (client c) ctx (UpdateRequest idx documentID u ''true'') w")
  have "sent w' = sent w @ [UpdateRequest idx documentID u ''true'']"
    using req_Do_sent[of d "client c" ctx "UpdateRequest idx documentID u ''true''" w] rd by simp
  then show ?thesis
    unfolding Update_def b using rd u by (simp add: Let_def split: sum.splits)
qed

lemma Update_fails_locally:
  "bodyBytes_of d body = Inl e \<Longrightarrow> Update d c ctx idx documentID body w = (Some e, w)"
  "bodyBytes_of d body = Inr b \<Longrightarrow>
   json_Marshal d (VMap (Some [(''doc'', VRawMessage b)])) = Inl e \<Longrightarrow>
   Update d c ctx idx documentID body w =
     (Some (Errorf_w ''failed to marshal update body: '' e), w)"
  by (simp_all add: Update_def Let_def)

text \<open>
  C2. The request that \<open>Index\<close> sends carries a string or \<open>[]byte\<close> payload verbatim (the
  nil slice as the empty body) and, for any other value, its JSON serialization; so a
  value, the string of its JSON text and the bytes of its JSON text put the same payload
  on the wire. \<open>Update\<close> sends the envelope serialized around that same normalized body,
  hence again one request for the three shapes. When the serialization of the payload
  fails, both return the error "failed to marshal document: ..." and no request has been
  sent (for \<open>Update\<close>, which is undecorated, the world is unchanged altogether); the same
  holds for \<open>Update\<close> when the serialization of the envelope fails.
\<close>

theorem body_normalization:
  "sent (snd (Index d c ctx idx documentID (VString s) w)) =
     sent w @ [IndexRequest idx documentID s ''true'']
   \<and> sent (snd (Index d c ctx idx documentID (VBytes (Some s)) w)) =
     sent w @ [IndexRequest idx documentID s ''true'']
   \<and> sent (snd (Index d c ctx idx documentID (VBytes None) w)) =
     sent w @ [IndexRequest idx documentID [] ''true'']
   \<and> (\<not> is_string_or_bytes body \<and> json_Marshal d body = Inr s \<longrightarrow>
        sent (snd (Index d c ctx idx documentID body w)) =
          sent w @ [IndexRequest idx documentID s ''true''])
   \<and> (\<not> is_string_or_bytes body \<and> json_Marshal d body = Inl e \<longrightarrow>
        fst (Index d c ctx idx documentID body w) =
          Some (Errorf_w ''failed to marshal document: '' e) \<and>
        sent (snd (Index d c ctx idx documentID body w)) = sent w)
   \<and> (json_Marshal d (VMap (Some [(''doc'', VRawMessage (Some s))])) = Inr u \<longrightarrow>
        sent (snd (Update d c ctx idx documentID (VString s) w)) =
          sent w @ [UpdateRequest idx documentID u ''true''] \<and>
        sent (snd (Update d c ctx idx documentID (VBytes (Some s)) w)) =
          sent w @ [UpdateRequest idx documentID u ''true''] \<and>
        (\<not> is_string_or_bytes body \<and> json_Marshal d body = Inr s \<longrightarrow>
           sent (snd (Update d c ctx idx documentID body w)) =
             sent w @ [UpdateRequest idx documentID u ''true'']))
   \<and> (\<not> is_string_or_bytes body \<and> json_Marshal d body = Inl e \<longrightarrow>
        Update d c ctx idx documentID body w =
          (Some (Errorf_w ''failed to marshal document: '' e), w))
   \<and> (json_Marshal d (VMap (Some [(''doc'', VRawMessage (Some s))])) = Inl e \<longrightarrow>
        Update d c ctx idx documentID (VString s) w =
          (Some (Errorf_w ''failed to marshal update body: '' e), w) \<and>
        Update d c ctx idx documentID (VBytes (Some s)) w =
          (Some (Errorf_w ''failed to marshal update body: '' e), w))"
  by (intro conjI impI)
     (simp_all add: Index_sends Index_fails_locally Update_sends Update_fails_locally
        bodyBytes_of_cases string_of_def)

theorem body_normalization_witness:
  "sent (snd (Index (stub (answer 200 [])) c0 Background ''idx'' ''1''
            (VMap (Some [(''title'', VString ''x'')])) w0)) =
     [IndexRequest ''idx'' ''1'' doc_body ''true'']
   \<and> sent (snd (Index (stub (answer 200 [])) c0 Background ''idx'' ''1'' (VString doc_body) w0)) =
     [IndexRequest ''idx'' ''1'' doc_body ''true'']
   \<and> sent (snd (Index (stub (answer 200 [])) c0 Background ''idx'' ''1'' (VBytes (Some doc_body)) w0)) =
     [IndexRequest ''idx'' ''1'' doc_body ''true'']
   \<and> sent (snd (Update (stub (answer 200 [])) c0 Background ''idx'' ''1''
            (VMap (Some [(''title'', VString ''x'')])) w0)) =
     [UpdateRequest ''idx'' ''1'' update_body ''true'']
   \<and> sent (snd (Update (stub (answer 200 [])) c0 Background ''idx'' ''1'' (VString doc_body) w0)) =
     [UpdateRequest ''idx'' ''1'' update_body ''true'']
   \<and> fst (Index (stub (answer 200 [])) c0 Background ''idx'' ''1'' (VOther 7) w0) =
     Some (Errorf_w ''failed to marshal document: '' (Errorf ''json: unsupported type''))
   \<and> sent (snd (Index (stub (answer 200 [])) c0 Background ''idx'' ''1'' (VOther 7) w0)) = []
   \<and> Update (stub (answer 200 [])) c0 Background ''idx'' ''1'' (VOther 7) w0 =
     (Some (Errorf_w ''failed to marshal document: '' (Errorf ''json: unsupported type'')), w0)
   \<and> Update (stub (answer 200 [])) c0 Background ''idx'' ''1'' (VString []) w0 =
     (Some (Errorf_w ''failed to marshal update body: '' (Errorf ''unexpected end of JSON input'')),
      w0)"
proof -
  have s0: "sent w0 = []" by (simp add: sent_def w0_def)
  show ?thesis
    using body_normalization[of "stub (answer 200 [])" c0 Background "''idx''" "''1''" doc_body w0
        "VMap (Some [(''title'', VString ''x'')])" "Errorf ''none''" update_body]
      body_normalization[of "stub (answer 200 [])" c0 Background "''idx''" "''1''" doc_body w0
        "VOther 7" "Errorf ''json: unsupported type''" update_body]
      body_normalization[of "stub (answer 200 [])" c0 Background "''idx''" "''1''" "[]" w0
        "VOther 7" "Errorf ''unexpected end of JSON input''" update_body]
    by (simp add: s0 doc_body_def update_body_def)
qed

section \<open>Document not found\<close>

lemma get_error_status:
  assumes "fst (Perform d (client c) ctx (GetRequest idx documentID) (ext w)) = Inr res"
    and "IsError res"
  shows "fst (get d c ctx idx documentID w) =
     (None, Some (if StatusCode res = 404 then Errorf ''document not found''
                  else Errorf (''elasticsearch get error: '' @ Response_String d res)))"
proof -
  obtain r w' where rd: "req_Do d (client c) ctx (GetRequest idx documentID) w = (r, w')"
    by (cases "req_Do d (client c) ctx (GetRequest idx documentID) w")
  with assms(1) req_Do_fst[of d "client c" ctx "GetRequest idx documentID" w]
  have "r = Inr res" by simp
  with rd assms(2) show ?thesis by (simp add: get_def)
qed

lemma delete_error_status:
  assumes "fst (Perform d (client c) ctx (DeleteRequest idx documentID ''true'') (ext w)) = Inr res"
    and "IsError res"
  shows "fst (delete d c ctx idx documentID w) =
     Some (if StatusCode res = 404 then Errorf ''document not found''
           else Errorf (''elasticsearch delete error: '' @ Response_String d res))"
proof -
  obtain r w' where rd: "req_Do d (client c) ctx (DeleteRequest idx documentID ''true'') w = (r, w')"
    by (cases "req_Do d (client c) ctx (DeleteRequest idx documentID ''true'') w")
  with assms(1) req_Do_fst[of d "client c" ctx "DeleteRequest idx documentID ''true''" w]
  have "r = Inr res" by simp
  with rd assms(2) show ?thesis by (simp add: delete_def)
qed

lemma Update_error_status:
  assumes b: "bodyBytes_of d body = Inr b"
    and u: "json_Marshal d (VMap (Some [(''doc'', VRawMessage b)])) = Inr u"
    and p: "fst (Perform d (client c) ctx (UpdateRequest idx documentID u ''true'') (ext w)) = Inr res"
    and e: "IsError res"
  shows "fst (Update d c ctx idx documentID body w) =
     Some (if StatusCode res = 404 then Errorf ''document not found''
           else Errorf (''elasticsearch update error: '' @ Response_String d res))"
proof -
  obtain r w' where rd: "req_Do d (client c) ctx (UpdateRequest idx documentID u ''true'') w = (r, w')"
    by (cases "req_Do d (client c) ctx (UpdateRequest idx documentID u ''true'') w")
  with p req_Do_fst[of d "client c" ctx "UpdateRequest idx documentID u ''true''" w]
  have "r = Inr res" by simp
  with rd e show ?thesis unfolding Update_def b by (simp add: Let_def u)
qed

lemma Get_error_status:
  assumes "fst (Perform d (client c)
                 (if EnableTrace c then WithSpan ctx (length (events w)) else ctx)
                 (GetRequest idx documentID) (snd (time_Now d (ext w)))) = Inr res"
    and "IsError res"
  shows "fst (Get d c ctx idx documentID w) =
     (None, Some (if StatusCode res = 404 then Errorf ''document not found''
                  else Errorf (''elasticsearch get error: '' @ Response_String d res)))"
proof (cases "EnableTrace c")
  case True
  let ?w = "emit (StartSpan ctx ''elasticsearch.operation''
                     [attribute_String ''db.system'' ''elasticsearch'',
                      attribute_String ''db.name'' idx,
                      attribute_String ''db.operation'' ''get''] (length (events w)))
               (snd (Now d w))"
  have "fst (Perform d (client c) (WithSpan ctx (length (events w)))
               (GetRequest idx documentID) (ext ?w)) = Inr res"
    using assms(1) True by (simp add: ext_Now)
  from get_error_status[OF this assms(2)] True show ?thesis
    unfolding Get_def
    using queryWithTrace_on[of d ctx "''get''" idx "\<lambda>ctx. get d c ctx idx documentID" w]
    by simp
next
  case False
  have "fst (Perform d (client c) ctx (GetRequest idx documentID) (ext (snd (Now d w)))) = Inr res"
    using assms(1) False by (simp add: ext_Now)
  from get_error_status[OF this assms(2)] False show ?thesis
    unfolding Get_def
    using queryWithTrace_off[of d ctx "''get''" idx "\<lambda>ctx. get d c ctx idx documentID" w]
    by simp
qed

lemma Delete_error_status:
  assumes "fst (Perform d (client c)
                 (if EnableTrace c then WithSpan ctx (length (events w)) else ctx)
                 (DeleteRequest idx documentID ''true'') (snd (time_Now d (ext w)))) = Inr res"
    and "IsError res"
  shows "fst (Delete d c ctx idx documentID w) =
     Some (if StatusCode res = 404 then Errorf ''document not found''
           else Errorf (''elasticsearch delete error: '' @ Response_String d res))"
proof (cases "EnableTrace c")
  case True
  let ?w = "emit (StartSpan ctx ''elasticsearch.operation''
                     [attribute_String ''db.system'' ''elasticsearch'',
                      attribute_String ''db.name'' idx,
                      attribute_String ''db.operation'' ''delete'',
                      attribute_String ''db.document_id'' documentID] (length (events w)))
               (snd (Now d w))"
  have "fst (Perform d (client c) (WithSpan ctx (length (events w)))
               (DeleteRequest idx documentID ''true'') (ext ?w)) = Inr res"
    using assms(1) True by (simp add: ext_Now)
  from delete_error_status[OF this assms(2)] True show ?thesis
    unfolding Delete_def
    using executeWithTrace_on[of d ctx "''delete''" idx documentID
            "\<lambda>ctx. delete d c ctx idx documentID" w]
    by simp
next
  case False
  have "fst (Perform d (client c) ctx (DeleteRequest idx documentID ''true'')
               (ext (snd (Now d w)))) = Inr res"
    using assms(1) False by (simp add: ext_Now)
  from delete_error_status[OF this assms(2)] False show ?thesis
    unfolding Delete_def
    using executeWithTrace_off[of d ctx "''delete''" idx documentID
            "\<lambda>ctx. delete d c ctx idx documentID" w]
    by simp
qed

text \<open>
  C3. When the transport answers the request of \<open>Get\<close>, \<open>Delete\<close> or \<open>Update\<close> with a
  response in the error range, the operation returns the error "document not found" if
  the status is exactly 404 and the generic error of the operation, "elasticsearch ...
  error: ..." followed by the rendered response, for every other status; the text of the
  former differs from the text of the latter whatever the rendered response is. The
  answer is assumed only where the operation asks: for \<open>Update\<close> in the caller's context
  and outside state, for \<open>Get\<close> and \<open>Delete\<close> in the context the decorator hands on (with
  the new span when tracing is on) and in the outside state after the decorator has read
  the clock.
\<close>

theorem not_found_is_distinguished:
  "(fst (Perform d (client c)
           (if EnableTrace c then WithSpan ctx (length (events w)) else ctx)
           (GetRequest idx documentID) (snd (time_Now d (ext w)))) = Inr res \<and>
    IsError res \<longrightarrow>
      fst (Get d c ctx idx documentID w) =
        (None, Some (if StatusCode res = 404 then Errorf ''document not found''
                     else Errorf (''elasticsearch get error: '' @ Response_String d res))))
   \<and> (fst (Perform d (client c)
              (if EnableTrace c then WithSpan ctx (length (events w)) else ctx)
              (DeleteRequest idx documentID ''true'') (snd (time_Now d (ext w)))) = Inr res \<and>
       IsError res \<longrightarrow>
      fst (Delete d c ctx idx documentID w) =
        Some (if StatusCode res = 404 then Errorf ''document not found''
              else Errorf (''elasticsearch delete error: '' @ Response_String d res)))
   \<and> (bodyBytes_of d body = Inr b \<and>
       json_Marshal d (VMap (Some [(''doc'', VRawMessage b)])) = Inr u \<and>
       fst (Perform d (client c) ctx (UpdateRequest idx documentID u ''true'') (ext w)) = Inr res \<and>
       IsError res \<longrightarrow>
      fst (Update d c ctx idx documentID body w) =
        Some (if StatusCode res = 404 then Errorf ''document not found''
              else Errorf (''elasticsearch update error: '' @ Response_String d res)))
   \<and> message (Errorf ''document not found'')
        \<noteq> message (Errorf (''elasticsearch get error: '' @ Response_String d res))
   \<and> message (Errorf ''document not found'')
        \<noteq> message (Errorf (''elasticsearch delete error: '' @ Response_String d res))
   \<and> message (Errorf ''document not found'')
        \<noteq> message (Errorf (''elasticsearch update error: '' @ Response_String d res))"
proof (intro conjI impI)
  assume "fst (Perform d (client c)
           (if EnableTrace c then WithSpan ctx (length (events w)) else ctx)
           (GetRequest idx documentID) (snd (time_Now d (ext w)))) = Inr res \<and> IsError res"
  then show "fst (Get d c ctx idx documentID w) =
        (None, Some (if StatusCode res = 404 then Errorf ''document not found''
                     else Errorf (''elasticsearch get error: '' @ Response_String d res)))"
    using Get_error_status[of d c ctx w idx documentID res] by blast
next
  assume "fst (Perform d (client c)
              (if EnableTrace c then WithSpan ctx (length (events w)) else ctx)
              (DeleteRequest idx documentID ''true'') (snd (time_Now d (ext w)))) = Inr res \<and>
       IsError res"
  then show "fst (Delete d c ctx idx documentID w) =
        Some (if StatusCode res = 404 then Errorf ''document not found''
              else Errorf (''elasticsearch delete error: '' @ Response_String d res))"
    using Delete_error_status[of d c ctx w idx documentID res] by blast
next
  assume "bodyBytes_of d body = Inr b \<and>
       json_Marshal d (VMap (Some [(''doc'', VRawMessage b)])) = Inr u \<and>
       fst (Perform d (client c) ctx (UpdateRequest idx documentID u ''true'') (ext w)) = Inr res \<and>
       IsError res"
  then show "fst (Update d c ctx idx documentID body w) =
        Some (if StatusCode res = 404 then Errorf ''document not found''
              else Errorf (''elasticsearch update error: '' @ Response_String d res))"
    using Update_error_status[of d body b u c ctx idx documentID w res] by blast
qed simp_all

theorem not_found_is_distinguished_witness:
  "fst (Get (at_only (WithSpan Background 0) 1 (GetRequest ''idx'' ''1'')
              (Inr \<lparr> StatusCode = 404, Body = [] \<rparr>)) c0 Background ''idx'' ''1'' w0) =
     (None, Some (Errorf ''document not found''))
   \<and> fst (Get (stub (answer 500 [])) c0 Background ''idx'' ''1'' w0) =
     (None, Some (Errorf ''elasticsearch get error: [response]''))
   \<and> fst (Delete (at_only (WithSpan Background 0) 1 (DeleteRequest ''idx'' ''1'' ''true'')
              (Inr \<lparr> StatusCode = 404, Body = [] \<rparr>)) c0 Background ''idx'' ''1'' w0) =
     Some (Errorf ''document not found'')
   \<and> fst (Delete (stub (answer 500 [])) c0 Background ''idx'' ''1'' w0) =
     Some (Errorf ''elasticsearch delete error: [response]'')
   \<and> fst (Update (at_only Background 0 (UpdateRequest ''idx'' ''1'' update_body ''true'')
              (Inr \<lparr> StatusCode = 404, Body = [] \<rparr>)) c0 Background ''idx'' ''1''
              (VBytes (Some doc_body)) w0) =
     Some (Errorf ''document not found'')
   \<and> fst (Update (stub (answer 500 [])) c0 Background ''idx'' ''1'' (VBytes (Some doc_body)) w0) =
     Some (Errorf ''elasticsearch update error: [response]'')"
proof -
  let ?nf = "Inr \<lparr> StatusCode = 404, Body = [] \<rparr> :: error + Response"
  have w: "events w0 = []" "ext w0 = 0" "EnableTrace c0" "client c0 = ()"
    by (simp_all add: w0_def c0_def)
  have g: "fst (Get (at_only (WithSpan Background 0) 1 (GetRequest ''idx'' ''1'') ?nf)
                 c0 Background ''idx'' ''1'' w0) =
             (None, Some (Errorf ''document not found''))"
    using not_found_is_distinguished[of
        "at_only (WithSpan Background 0) 1 (GetRequest ''idx'' ''1'') ?nf" c0 Background w0
        "''idx''" "''1''" "\<lparr> StatusCode = 404, Body = [] \<rparr>" "VBytes (Some doc_body)"
        "Some doc_body" update_body]
    by (simp add: w IsError_def)
  have dl: "fst (Delete (at_only (WithSpan Background 0) 1 (DeleteRequest ''idx'' ''1'' ''true'') ?nf)
                 c0 Background ''idx'' ''1'' w0) =
             Some (Errorf ''document not found'')"
    using not_found_is_distinguished[of
        "at_only (WithSpan Background 0) 1 (DeleteRequest ''idx'' ''1'' ''true'') ?nf" c0
        Background w0 "''idx''" "''1''" "\<lparr> StatusCode = 404, Body = [] \<rparr>"
        "VBytes (Some doc_body)" "Some doc_body" update_body]
    by (simp add: w IsError_def)
  have u: "fst (Update (at_only Background 0 (UpdateRequest ''idx'' ''1'' update_body ''true'') ?nf)
                 c0 Background ''idx'' ''1'' (VBytes (Some doc_body)) w0) =
             Some (Errorf ''document not found'')"
    using not_found_is_distinguished[of
        "at_only Background 0 (UpdateRequest ''idx'' ''1'' update_body ''true'') ?nf" c0
        Background w0 "''idx''" "''1''" "\<lparr> StatusCode = 404, Body = [] \<rparr>"
        "VBytes (Some doc_body)" "Some doc_body" update_body]
    by (simp add: w IsError_def bodyBytes_of_cases doc_body_def update_body_def)
  have s: "fst (Get (stub (answer 500 [])) c0 Background ''idx'' ''1'' w0) =
       (None, Some (Errorf ''elasticsearch get error: [response]''))
     \<and> fst (Delete (stub (answer 500 [])) c0 Background ''idx'' ''1'' w0) =
       Some (Errorf ''elasticsearch delete error: [response]'')
     \<and> fst (Update (stub (answer 500 [])) c0 Background ''idx'' ''1'' (VBytes (Some doc_body)) w0) =
       Some (Errorf ''elasticsearch update error: [response]'')"
    using not_found_is_distinguished[of "stub (answer 500 [])" c0 Background w0 "''idx''" "''1''"
        "\<lparr> StatusCode = 500, Body = [] \<rparr>" "VBytes (Some doc_body)" "Some doc_body" update_body]
    by (simp add: w answer_def IsError_def bodyBytes_of_cases doc_body_def update_body_def)
  from g dl u s show ?thesis by simp
qed

section \<open>Configuration translation\<close>

lemma Validate_addrs_None: "'''' \<notin> set as \<Longrightarrow> Validate_addrs i as = None"
  by (induction as arbitrary: i) auto

lemma Validate_addrs_Some:
  "'''' \<in> set as \<Longrightarrow>
   \<exists>j<length as. as ! j = '''' \<and> (\<forall>k<j. as ! k \<noteq> '''') \<and>
     Validate_addrs i as =
       Some (Errorf (''elasticsearch addresses['' @ fmt_d (i + j) @ ''] cannot be empty''))"
proof (induction as arbitrary: i)
  case Nil
  then show ?case by simp
next
  case (Cons a as)
  show ?case
  proof (cases "a = ''''")
    case True
    then have "(a # as) ! 0 = '''' \<and> (\<forall>k<0. (a # as) ! k \<noteq> '''') \<and>
      Validate_addrs i (a # as) =
       Some (Errorf (''elasticsearch addresses['' @ fmt_d (i + 0) @ ''] cannot be empty''))"
      by simp
    then show ?thesis by (intro exI[of _ 0]) simp
  next
    case False
    with Cons.prems have "'''' \<in> set as" by auto
    from Cons.IH[OF this, of "Suc i"] obtain j where j: "j < length as" "as ! j = ''''"
      "\<forall>k<j. as ! k \<noteq> ''''"
      "Validate_addrs (Suc i) as =
        Some (Errorf (''elasticsearch addresses['' @ fmt_d (Suc i + j) @ ''] cannot be empty''))"
      by blast
    have "\<forall>k<Suc j. (a # as) ! k \<noteq> ''''"
      using j(3) False by (auto simp: nth_Cons split: nat.splits)
    with j False show ?thesis
      by (intro exI[of _ "Suc j"]) simp
  qed
qed

text \<open>
  C4. \<open>ToOptions\<close> fails with a descriptive error on the nil \<open>Config\<close>, on a
  \<open>Config\<close> that is not enabled, and on an enabled one whose address list is empty or
  holds an empty address (the error names the first such index). On an enabled
  \<open>Config\<close> with a non-empty list of non-empty addresses it succeeds: every field is
  carried through, and each of the dial, read and write timeouts that is zero becomes
  30 seconds. \<open>ToOptions\<close> is a function of the \<open>Config\<close> alone: it takes no world and
  reaches no transport.
\<close>

theorem ToOptions_contract:
  "ToOptions None = Inl (Errorf ''elasticsearch config cannot be nil'')
   \<and> (\<not> Enabled cfg \<longrightarrow> ToOptions (Some cfg) = Inl (Errorf ''elasticsearch is not enabled''))
   \<and> (Enabled cfg \<and> Config.Addresses cfg = [] \<longrightarrow>
        ToOptions (Some cfg) = Inl (Errorf ''elasticsearch addresses cannot be empty''))
   \<and> (Enabled cfg \<and> '''' \<in> set (Config.Addresses cfg) \<longrightarrow>
        (\<exists>i<length (Config.Addresses cfg).
           Config.Addresses cfg ! i = '''' \<and> (\<forall>k<i. Config.Addresses cfg ! k \<noteq> '''') \<and>
           ToOptions (Some cfg) =
             Inl (Errorf (''elasticsearch addresses['' @ fmt_d i @ ''] cannot be empty''))))
   \<and> (Enabled cfg \<and> Config.Addresses cfg \<noteq> [] \<and> '''' \<notin> set (Config.Addresses cfg) \<longrightarrow>
        ToOptions (Some cfg) =
          Inr \<lparr> Options.Addresses = Config.Addresses cfg,
                Options.Username = Config.Username cfg,
                Options.Password = Config.Password cfg,
                Options.CloudID = Config.CloudID cfg,
                Options.APIKey = Config.APIKey cfg,
                Options.EnableTLS = Config.EnableTLS cfg,
                Options.CACert = Config.CACert cfg,
                Options.DialTimeout =
                  (if Config.DialTimeout cfg = 0 then 30000000000 else Config.DialTimeout cfg),
                Options.ReadTimeout =
                  (if Config.ReadTimeout cfg = 0 then 30000000000 else Config.ReadTimeout cfg),
                Options.WriteTimeout =
                  (if Config.WriteTimeout cfg = 0 then 30000000000 else Config.WriteTimeout cfg),
                Options.MaxRetries = Config.MaxRetries cfg,
                Options.EnableTrace = Config.EnableTrace cfg \<rparr>)"
proof (intro conjI impI)
  show "ToOptions None = Inl (Errorf ''elasticsearch config cannot be nil'')"
    by (simp add: ToOptions_def Validate_def)
next
  assume "\<not> Enabled cfg"
  then show "ToOptions (Some cfg) = Inl (Errorf ''elasticsearch is not enabled'')"
    by (simp add: ToOptions_def Validate_def)
next
  assume "Enabled cfg \<and> Config.Addresses cfg = []"
  then show "ToOptions (Some cfg) = Inl (Errorf ''elasticsearch addresses cannot be empty'')"
    by (simp add: ToOptions_def Validate_def)
next
  assume a: "Enabled cfg \<and> '''' \<in> set (Config.Addresses cfg)"
  then have ne: "Config.Addresses cfg \<noteq> []" by auto
  from a Validate_addrs_Some[of "Config.Addresses cfg" 0]
  obtain j where j: "j < length (Config.Addresses cfg)" "Config.Addresses cfg ! j = ''''"
    "\<forall>k<j. Config.Addresses cfg ! k \<noteq> ''''"
    "Validate_addrs 0 (Config.Addresses cfg) =
       Some (Errorf (''elasticsearch addresses['' @ fmt_d j @ ''] cannot be empty''))"
    by auto
  have "ToOptions (Some cfg) =
      Inl (Errorf (''elasticsearch addresses['' @ fmt_d j @ ''] cannot be empty''))"
    using a ne j(4) by (simp add: ToOptions_def Validate_def)
  with j show "\<exists>i<length (Config.Addresses cfg).
           Config.Addresses cfg ! i = '''' \<and> (\<forall>k<i. Config.Addresses cfg ! k \<noteq> '''') \<and>
           ToOptions (Some cfg) =
             Inl (Errorf (''elasticsearch addresses['' @ fmt_d i @ ''] cannot be empty''))"
    by blast
next
  assume a: "Enabled cfg \<and> Config.Addresses cfg \<noteq> [] \<and> '''' \<notin> set (Config.Addresses cfg)"
  then have "Validate (Some cfg) = None"
    by (simp add: Validate_def Validate_addrs_None)
  with a show "ToOptions (Some cfg) =
          Inr \<lparr> Options.Addresses = Config.Addresses cfg,
                Options.Username = Config.Username cfg,
                Options.Password = Config.Password cfg,
                Options.CloudID = Config.CloudID cfg,
                Options.APIKey = Config.APIKey cfg,
                Options.EnableTLS = Config.EnableTLS cfg,
                Options.CACert = Config.CACert cfg,
                Options.DialTimeout =
                  (if Config.DialTimeout cfg = 0 then 30000000000 else Config.DialTimeout cfg),
                Options.ReadTimeout =
                  (if Config.ReadTimeout cfg = 0 then 30000000000 else Config.ReadTimeout cfg),
                Options.WriteTimeout =
                  (if Config.WriteTimeout cfg = 0 then 30000000000 else Config.WriteTimeout cfg),
                Options.MaxRetries = Config.MaxRetries cfg,
                Options.EnableTrace = Config.EnableTrace cfg \<rparr>"
    by (simp add: ToOptions_def Second_def Let_def)
qed

theorem ToOptions_contract_witness:
  "ToOptions (Some (cfg0\<lparr>Enabled := False\<rparr>)) = Inl (Errorf ''elasticsearch is not enabled'')
   \<and> ToOptions (Some (cfg0\<lparr>Config.Addresses := []\<rparr>)) =
        Inl (Errorf ''elasticsearch addresses cannot be empty'')
   \<and> ToOptions (Some (cfg0\<lparr>Config.Addresses := [''http://a:9200'', '''']\<rparr>)) =
        Inl (Errorf ''elasticsearch addresses[1] cannot be empty'')
   \<and> ToOptions (Some cfg0) =
        Inr \<lparr> Options.Addresses = [''http://localhost:9200''],
              Options.Username = ''elastic'', Options.Password = ''secret'',
              Options.CloudID = '''', Options.APIKey = '''', Options.EnableTLS = False,
              Options.CACert = '''', Options.DialTimeout = 30000000000,
              Options.ReadTimeout = 5000000000, Options.WriteTimeout = 30000000000,
              Options.MaxRetries = 0, Options.EnableTrace = True \<rparr>"
proof -
  have 1: "\<not> Enabled (cfg0\<lparr>Enabled := False\<rparr>)" by simp
  have 2: "Enabled (cfg0\<lparr>Config.Addresses := []\<rparr>) \<and>
           Config.Addresses (cfg0\<lparr>Config.Addresses := []\<rparr>) = []"
    by (simp add: cfg0_def)
  have 3: "Enabled (cfg0\<lparr>Config.Addresses := [''http://a:9200'', '''']\<rparr>) \<and>
           '''' \<in> set (Config.Addresses (cfg0\<lparr>Config.Addresses := [''http://a:9200'', '''']\<rparr>))"
    by (simp add: cfg0_def)
  have 4: "Enabled cfg0 \<and> Config.Addresses cfg0 \<noteq> [] \<and> '''' \<notin> set (Config.Addresses cfg0)"
    by (simp add: cfg0_def)
  define c3 where "c3 = cfg0\<lparr>Config.Addresses := [''http://a:9200'', '''']\<rparr>"
  have h3: "Enabled c3 \<and> '''' \<in> set (Config.Addresses c3)"
    using 3 by (simp add: c3_def)
  have "\<exists>i<length (Config.Addresses c3).
           Config.Addresses c3 ! i = '''' \<and> (\<forall>k<i. Config.Addresses c3 ! k \<noteq> '''') \<and>
           ToOptions (Some c3) =
             Inl (Errorf (''elasticsearch addresses['' @ fmt_d i @ ''] cannot be empty''))"
    using ToOptions_contract[of c3] h3 by blast
  then obtain i where i0: "i < length (Config.Addresses c3)" "Config.Addresses c3 ! i = ''''"
     "ToOptions (Some c3) =
             Inl (Errorf (''elasticsearch addresses['' @ fmt_d i @ ''] cannot be empty''))"
    by blast
  have i: "i < 2" "[''http://a:9200'', ''''] ! i = ''''"
     "ToOptions (Some (cfg0\<lparr>Config.Addresses := [''http://a:9200'', '''']\<rparr>)) =
             Inl (Errorf (''elasticsearch addresses['' @ fmt_d i @ ''] cannot be empty''))"
    using i0 by (simp_all add: c3_def)
  from i(1,2) have "i = 1" by (cases i) auto
  then have c3: "ToOptions (Some (cfg0\<lparr>Config.Addresses := [''http://a:9200'', '''']\<rparr>)) =
        Inl (Errorf ''elasticsearch addresses[1] cannot be empty'')"
    using i(3) by (simp add: fmt_d.simps)
  show ?thesis
    using ToOptions_contract[of "cfg0\<lparr>Enabled := False\<rparr>"] 1
      ToOptions_contract[of "cfg0\<lparr>Config.Addresses := []\<rparr>"] 2
      ToOptions_contract[of cfg0] 4 c3
    by (simp add: cfg0_def)
qed

section \<open>Client construction: rejected options\<close>

text \<open>
  C5. \<open>NewElasticsearch\<close> on the nil \<open>Options\<close> fails with an error whose text contains
  "cannot be nil", and on \<open>Options\<close> with an empty address list with one whose text
  contains "cannot be empty". In both cases the world it returns is the world it was
  given: no native client has been constructed and no request, the connectivity probe
  included, has gone out.
\<close>

theorem NewElasticsearch_rejects:
  "NewElasticsearch d None w = (Inl (Errorf ''elasticsearch options cannot be nil''), w)
   \<and> sublist ''cannot be nil'' (message (Errorf ''elasticsearch options cannot be nil''))
   \<and> (Options.Addresses opts = [] \<longrightarrow>
        NewElasticsearch d (Some opts) w =
          (Inl (Errorf ''elasticsearch addresses cannot be empty''), w))
   \<and> sublist ''cannot be empty'' (message (Errorf ''elasticsearch addresses cannot be empty''))"
proof (intro conjI impI)
  show "NewElasticsearch d None w = (Inl (Errorf ''elasticsearch options cannot be nil''), w)"
    by (simp add: NewElasticsearch_def)
  show "sublist ''cannot be nil'' (message (Errorf ''elasticsearch options cannot be nil''))"
    by (rule suffix_imp_sublist) (simp add: suffix_def Errorf_def)
  show "sublist ''cannot be empty'' (message (Errorf ''elasticsearch addresses cannot be empty''))"
    by (rule suffix_imp_sublist) (simp add: suffix_def Errorf_def)
next
  assume "Options.Addresses opts = []"
  then show "NewElasticsearch d (Some opts) w =
          (Inl (Errorf ''elasticsearch addresses cannot be empty''), w)"
    by (simp add: NewElasticsearch_def)
qed

theorem NewElasticsearch_rejects_witness:
  "NewElasticsearch (stub refuse) (Some (opts0\<lparr>Options.Addresses := []\<rparr>)) w0 =
     (Inl (Errorf ''elasticsearch addresses cannot be empty''), w0)
   \<and> events w0 = []"
  using NewElasticsearch_rejects[of "stub refuse" w0 "opts0\<lparr>Options.Addresses := []\<rparr>"]
  by (simp add: w0_def)

section \<open>The decorators change no outcome\<close>

lemma is_observability_all [simp]:
  "list_all is_observability [span_End s]"
  "list_all is_observability [log_Error ctx m fs]"
  "list_all is_observability [log_Info ctx m fs]"
  "list_all is_observability
     [log_Error ctx m fs, span_SetStatus s cd t, span_RecordError s e, span_SetAttributes s as,
      span_End s]"
  "list_all is_observability
     [log_Info ctx m fs, span_SetStatus s cd t, span_SetAttributes s as, span_End s]"
  by simp_all

lemma executeWithTrace_off_world:
  "ext (snd (executeWithTrace d ctx operation idx documentID False h w)) =
     ext (snd (Now d (snd (h ctx (snd (Now d w))))))
   \<and> (\<exists>evs. events (snd (executeWithTrace d ctx operation idx documentID False h w)) =
               events (snd (h ctx (snd (Now d w)))) @ evs \<and> list_all is_observability evs)"
proof -
  obtain t0 w1 where n0: "Now d w = (t0, w1)" by (cases "Now d w")
  obtain err w3 where hr: "h ctx w1 = (err, w3)" by (cases "h ctx w1")
  obtain t1 w4 where n1: "Now d w3 = (t1, w4)" by (cases "Now d w3")
  have e4: "events w4 = events w3" using events_Now[of d w3] n1 by simp
  show ?thesis
    unfolding executeWithTrace_def n0
    using hr n1 e4 by (cases err) (simp_all add: Let_def deferred_End_def)
qed

lemma executeWithTrace_on_world:
  "ext (snd (executeWithTrace d ctx operation idx documentID True h w)) =
     ext (snd (Now d (snd (h (WithSpan ctx (length (events w)))
            (emit (StartSpan ctx ''elasticsearch.operation''
                     [attribute_String ''db.system'' ''elasticsearch'',
                      attribute_String ''db.name'' idx,
                      attribute_String ''db.operation'' operation,
                      attribute_String ''db.document_id'' documentID] (length (events w)))
               (snd (Now d w)))))))
   \<and> (\<exists>evs. events (snd (executeWithTrace d ctx operation idx documentID True h w)) =
               events (snd (h (WithSpan ctx (length (events w)))
                 (emit (StartSpan ctx ''elasticsearch.operation''
                     [attribute_String ''db.system'' ''elasticsearch'',
                      attribute_String ''db.name'' idx,
                      attribute_String ''db.operation'' operation,
                      attribute_String ''db.document_id'' documentID] (length (events w)))
               (snd (Now d w))))) @ evs \<and> list_all is_observability evs)"
proof -
  let ?attrs = "[attribute_String ''db.system'' ''elasticsearch'',
                      attribute_String ''db.name'' idx,
                      attribute_String ''db.operation'' operation,
                      attribute_String ''db.document_id'' documentID]"
  obtain t0 w1 where n0: "Now d w = (t0, w1)" by (cases "Now d w")
  have e1: "events w1 = events w" using events_Now[of d w] n0 by simp
  let ?c = "WithSpan ctx (length (events w))"
  let ?w2 = "emit (StartSpan ctx ''elasticsearch.operation'' ?attrs (length (events w))) w1"
  have sp: "pkgtrace_StartSpan ctx ''elasticsearch.operation'' ?attrs w1
              = ((?c, length (events w)), ?w2)"
    by (simp add: pkgtrace_StartSpan_def Let_def e1)
  obtain err w3 where hr: "h ?c ?w2 = (err, w3)" by (cases "h ?c ?w2")
  obtain t1 w4 where n1: "Now d w3 = (t1, w4)" by (cases "Now d w3")
  have e4: "events w4 = events w3" using events_Now[of d w3] n1 by simp
  show ?thesis
    unfolding executeWithTrace_def n0
    using hr n1 e4 sp by (cases err) (simp_all add: Let_def deferred_End_def)
qed

lemma queryWithTrace_off_world:
  "ext (snd (queryWithTrace d ctx operation idx False q w)) =
     ext (snd (Now d (snd (q ctx (snd (Now d w))))))
   \<and> (\<exists>evs. events (snd (queryWithTrace d ctx operation idx False q w)) =
               events (snd (q ctx (snd (Now d w)))) @ evs \<and> list_all is_observability evs)"
proof -
  obtain t0 w1 where n0: "Now d w = (t0, w1)" by (cases "Now d w")
  obtain result err w3 where hr: "q ctx w1 = ((result, err), w3)"
    by (cases "q ctx w1") auto
  obtain t1 w4 where n1: "Now d w3 = (t1, w4)" by (cases "Now d w3")
  have e4: "events w4 = events w3" using events_Now[of d w3] n1 by simp
  show ?thesis
    unfolding queryWithTrace_def n0
    using hr n1 e4 by (cases err) (simp_all add: Let_def deferred_End_def)
qed

lemma queryWithTrace_on_world:
  "ext (snd (queryWithTrace d ctx operation idx True q w)) =
     ext (snd (Now d (snd (q (WithSpan ctx (length (events w)))
            (emit (StartSpan ctx ''elasticsearch.operation''
                     [attribute_String ''db.system'' ''elasticsearch'',
                      attribute_String ''db.name'' idx,
                      attribute_String ''db.operation'' operation] (length (events w)))
               (snd (Now d w)))))))
   \<and> (\<exists>evs. events (snd (queryWithTrace d ctx operation idx True q w)) =
               events (snd (q (WithSpan ctx (length (events w)))
                 (emit (StartSpan ctx ''elasticsearch.operation''
                     [attribute_String ''db.system'' ''elasticsearch'',
                      attribute_String ''db.name'' idx,
                      attribute_String ''db.operation'' operation] (length (events w)))
               (snd (Now d w))))) @ evs \<and> list_all is_observability evs)"
proof -
  let ?attrs = "[attribute_String ''db.system'' ''elasticsearch'',
                      attribute_String ''db.name'' idx,
                      attribute_String ''db.operation'' operation]"
  obtain t0 w1 where n0: "Now d w = (t0, w1)" by (cases "Now d w")
  have e1: "events w1 = events w" using events_Now[of d w] n0 by simp
  let ?c = "WithSpan ctx (length (events w))"
  let ?w2 = "emit (StartSpan ctx ''elasticsearch.operation'' ?attrs (length (events w))) w1"
  have sp: "pkgtrace_StartSpan ctx ''elasticsearch.operation'' ?attrs w1
              = ((?c, length (events w)), ?w2)"
    by (simp add: pkgtrace_StartSpan_def Let_def e1)
  obtain result err w3 where hr: "q ?c ?w2 = ((result, err), w3)"
    by (cases "q ?c ?w2") auto
  obtain t1 w4 where n1: "Now d w3 = (t1, w4)" by (cases "Now d w3")
  have e4: "events w4 = events w3" using events_Now[of d w3] n1 by simp
  show ?thesis
    unfolding queryWithTrace_def n0
    using hr n1 e4 sp by (cases err) (simp_all add: Let_def deferred_End_def)
qed

text \<open>
  C6. Each decorator runs the wrapped work once, in the caller's context after the clock
  was read when tracing is off, and in that context with the new span, after the span
  was started, when tracing is on. \<open>executeWithTrace\<close> returns exactly the error (or nil)
  of the wrapped work; \<open>queryWithTrace\<close> returns the wrapped error unchanged and, when
  there is none, the wrapped result unchanged. Beyond what the wrapped work did, the
  decorator sends no request, changes the outside state only by reading the clock once
  more, and appends only calls on the logging and tracing collaborators to the events.
  Hence, whenever the wrapped work has the same outcome (sends the same requests) in the
  two settings, the decorated call has the same outcome (sends the same requests) with
  tracing on and with tracing off.
\<close>

theorem decorators_return_outcome_unchanged:
  "(let w1 = snd (Now d w);
        sc = WithSpan ctx (length (events w));
        hw = emit (StartSpan ctx ''elasticsearch.operation''
                     [attribute_String ''db.system'' ''elasticsearch'',
                      attribute_String ''db.name'' idx,
                      attribute_String ''db.operation'' operation,
                      attribute_String ''db.document_id'' documentID] (length (events w))) w1;
        qw = emit (StartSpan ctx ''elasticsearch.operation''
                     [attribute_String ''db.system'' ''elasticsearch'',
                      attribute_String ''db.name'' idx,
                      attribute_String ''db.operation'' operation] (length (events w))) w1;
        e0 = executeWithTrace d ctx operation idx documentID False h w;
        e1 = executeWithTrace d ctx operation idx documentID True h w;
        q0 = queryWithTrace d ctx operation idx False q w;
        q1 = queryWithTrace d ctx operation idx True q w
    in
      fst e0 = fst (h ctx w1)
    \<and> sent (snd e0) = sent (snd (h ctx w1))
    \<and> ext (snd e0) = ext (snd (Now d (snd (h ctx w1))))
    \<and> (\<exists>evs. events (snd e0) = events (snd (h ctx w1)) @ evs \<and> list_all is_observability evs)
    \<and> fst e1 = fst (h sc hw)
    \<and> sent (snd e1) = sent (snd (h sc hw))
    \<and> ext (snd e1) = ext (snd (Now d (snd (h sc hw))))
    \<and> (\<exists>evs. events (snd e1) = events (snd (h sc hw)) @ evs \<and> list_all is_observability evs)
    \<and> snd (fst q0) = snd (fst (q ctx w1))
    \<and> (snd (fst (q ctx w1)) = None \<longrightarrow> fst (fst q0) = fst (fst (q ctx w1)))
    \<and> sent (snd q0) = sent (snd (q ctx w1))
    \<and> ext (snd q0) = ext (snd (Now d (snd (q ctx w1))))
    \<and> (\<exists>evs. events (snd q0) = events (snd (q ctx w1)) @ evs \<and> list_all is_observability evs)
    \<and> snd (fst q1) = snd (fst (q sc qw))
    \<and> (snd (fst (q sc qw)) = None \<longrightarrow> fst (fst q1) = fst (fst (q sc qw)))
    \<and> sent (snd q1) = sent (snd (q sc qw))
    \<and> ext (snd q1) = ext (snd (Now d (snd (q sc qw))))
    \<and> (\<exists>evs. events (snd q1) = events (snd (q sc qw)) @ evs \<and> list_all is_observability evs)
    \<and> (fst (h sc hw) = fst (h ctx w1) \<longrightarrow> fst e1 = fst e0)
    \<and> (sent (snd (h sc hw)) = sent (snd (h ctx w1)) \<longrightarrow> sent (snd e1) = sent (snd e0))
    \<and> (fst (q sc qw) = fst (q ctx w1) \<longrightarrow> fst q1 = fst q0)
    \<and> (sent (snd (q sc qw)) = sent (snd (q ctx w1)) \<longrightarrow> sent (snd q1) = sent (snd q0)))"
proof -
  note e0 = executeWithTrace_off[of d ctx operation idx documentID h w]
  note e1 = executeWithTrace_on[of d ctx operation idx documentID h w]
  note q0 = queryWithTrace_off[of d ctx operation idx q w]
  note q1 = queryWithTrace_on[of d ctx operation idx q w]
  note e0w = executeWithTrace_off_world[of d ctx operation idx documentID h w]
  note e1w = executeWithTrace_on_world[of d ctx operation idx documentID h w]
  note q0w = queryWithTrace_off_world[of d ctx operation idx q w]
  note q1w = queryWithTrace_on_world[of d ctx operation idx q w]
  show ?thesis
    unfolding Let_def
    apply (intro conjI)
    using e0 e0w apply simp_all[4]
    using e1 e1w apply simp_all[4]
    using q0 q0w apply (simp_all split: option.splits)[5]
    using q1 q1w apply (simp_all split: option.splits)[5]
    using e0 e1 apply simp_all[2]
    using q0 q1 apply (simp_all split: option.splits)[2]
    done
qed

lemma index_stub_ok:
  "fst (index (stub (answer 200 doc_body)) c0 ctx ''idx'' ''1'' (VBytes (Some doc_body)) w) = None"
  by (simp add: index_def bodyBytes_of_def string_of_def req_Do_def answer_def IsError_def)

lemma get_stub_ok:
  "fst (get (stub (answer 200 doc_body)) c0 ctx ''idx'' ''1'' w) =
     (Some [(''title'', VString ''x'')], None)"
  by (simp add: get_def req_Do_def answer_def IsError_def)

lemma get_sends:
  "sent (snd (get d c ctx idx documentID w)) = sent w @ [GetRequest idx documentID]"
proof -
  obtain r w' where rd: "req_Do d (client c) ctx (GetRequest idx documentID) w = (r, w')"
    by (cases "req_Do d (client c) ctx (GetRequest idx documentID) w")
  have "sent w' = sent w @ [GetRequest idx documentID]"
    using req_Do_sent[of d "client c" ctx "GetRequest idx documentID" w] rd by simp
  then show ?thesis
    unfolding get_def using rd by (simp split: sum.splits prod.splits option.splits)
qed

theorem decorators_return_outcome_unchanged_witness:
  "fst (executeWithTrace (stub (answer 200 doc_body)) Background ''get'' ''idx'' ''1'' True
          (\<lambda>ctx. index (stub (answer 200 doc_body)) c0 ctx ''idx'' ''1'' (VBytes (Some doc_body)))
          w0) =
   fst (executeWithTrace (stub (answer 200 doc_body)) Background ''get'' ''idx'' ''1'' False
          (\<lambda>ctx. index (stub (answer 200 doc_body)) c0 ctx ''idx'' ''1'' (VBytes (Some doc_body)))
          w0)
   \<and> sent (snd (executeWithTrace (stub (answer 200 doc_body)) Background ''get'' ''idx'' ''1'' True
          (\<lambda>ctx. index (stub (answer 200 doc_body)) c0 ctx ''idx'' ''1'' (VBytes (Some doc_body)))
          w0)) =
      sent (snd (executeWithTrace (stub (answer 200 doc_body)) Background ''get'' ''idx'' ''1'' False
          (\<lambda>ctx. index (stub (answer 200 doc_body)) c0 ctx ''idx'' ''1'' (VBytes (Some doc_body)))
          w0))
   \<and> sent (snd (executeWithTrace (stub (answer 200 doc_body)) Background ''get'' ''idx'' ''1'' True
          (\<lambda>ctx. index (stub (answer 200 doc_body)) c0 ctx ''idx'' ''1'' (VBytes (Some doc_body)))
          w0)) =
      [IndexRequest ''idx'' ''1'' doc_body ''true'']
   \<and> fst (queryWithTrace (stub (answer 200 doc_body)) Background ''get'' ''idx'' True
          (\<lambda>ctx. get (stub (answer 200 doc_body)) c0 ctx ''idx'' ''1'') w0) =
      fst (queryWithTrace (stub (answer 200 doc_body)) Background ''get'' ''idx'' False
          (\<lambda>ctx. get (stub (answer 200 doc_body)) c0 ctx ''idx'' ''1'') w0)
   \<and> fst (queryWithTrace (stub (answer 200 doc_body)) Background ''get'' ''idx'' True
          (\<lambda>ctx. get (stub (answer 200 doc_body)) c0 ctx ''idx'' ''1'') w0) =
      (Some [(''title'', VString ''x'')], None)
   \<and> sent (snd (queryWithTrace (stub (answer 200 doc_body)) Background ''get'' ''idx'' True
          (\<lambda>ctx. get (stub (answer 200 doc_body)) c0 ctx ''idx'' ''1'') w0)) =
      sent (snd (queryWithTrace (stub (answer 200 doc_body)) Background ''get'' ''idx'' False
          (\<lambda>ctx. get (stub (answer 200 doc_body)) c0 ctx ''idx'' ''1'') w0))
   \<and> sent (snd (queryWithTrace (stub (answer 200 doc_body)) Background ''get'' ''idx'' False
          (\<lambda>ctx. get (stub (answer 200 doc_body)) c0 ctx ''idx'' ''1'') w0)) =
      [GetRequest ''idx'' ''1'']"
proof -
  have s0: "sent w0 = []" by (simp add: sent_def w0_def)
  have b: "bodyBytes_of (stub (answer 200 doc_body)) (VBytes (Some doc_body)) = Inr (Some doc_body)"
    by (simp add: bodyBytes_of_cases)
  show ?thesis
    using decorators_return_outcome_unchanged[where d = "stub (answer 200 doc_body)"
        and ctx = Background and operation = "''get''" and idx = "''idx''"
        and documentID = "''1''" and w = w0
        and h = "\<lambda>ctx. index (stub (answer 200 doc_body)) c0 ctx ''idx'' ''1''
                        (VBytes (Some doc_body))"
        and q = "\<lambda>ctx. get (stub (answer 200 doc_body)) c0 ctx ''idx'' ''1''"]
    by (simp add: Let_def index_stub_ok get_stub_ok get_sends index_sends[OF b] s0 string_of_def
          prod_eq_iff)
qed

section \<open>Client construction: the native configuration\<close>

lemma native_config_eq:
  "native_config opt =
     \<lparr> es_Config.Addresses = Options.Addresses opt,
       es_Config.Username =
         (if Options.Username opt \<noteq> '''' \<and> Options.Password opt \<noteq> ''''
          then Options.Username opt else ''''),
       es_Config.Password =
         (if Options.Username opt \<noteq> '''' \<and> Options.Password opt \<noteq> ''''
          then Options.Password opt else ''''),
       es_Config.CloudID = Options.CloudID opt,
       es_Config.APIKey =
         (if Options.Username opt \<noteq> '''' \<and> Options.Password opt \<noteq> ''''
          then '''' else Options.APIKey opt),
       es_Config.MaxRetries =
         (if 0 < Options.MaxRetries opt then Options.MaxRetries opt else 3) \<rparr>"
  unfolding native_config_def Let_def by auto

lemma NewElasticsearch_events:
  assumes ne: "Options.Addresses opts \<noteq> []"
  shows "\<exists>rest. events (snd (NewElasticsearch d (Some opts) w)) =
           events w @ NewClient (native_config opts) # rest"
proof -
  let ?w1 = "emit (NewClient (native_config opts)) w"
  obtain r x where nc: "elasticsearch_NewClient d (native_config opts) (ext ?w1) = (r, x)"
    by (cases "elasticsearch_NewClient d (native_config opts) (ext ?w1)")
  show ?thesis
  proof (cases r)
    case (Inl err)
    with ne nc have "snd (NewElasticsearch d (Some opts) w) = ?w1\<lparr>ext := x\<rparr>"
      by (simp add: NewElasticsearch_def Let_def)
    then show ?thesis by simp
  next
    case (Inr cl)
    let ?ctx = "WithTimeout Background (Options.DialTimeout opts)"
    obtain r2 w2 where rd: "req_Do d cl ?ctx InfoRequest (?w1\<lparr>ext := x\<rparr>) = (r2, w2)"
      by (cases "req_Do d cl ?ctx InfoRequest (?w1\<lparr>ext := x\<rparr>)")
    have ev: "events w2 = events w @ [NewClient (native_config opts), Do ?ctx InfoRequest]"
      using req_Do_events[of d cl ?ctx InfoRequest "?w1\<lparr>ext := x\<rparr>"] rd by simp
    have "snd (NewElasticsearch d (Some opts) w) = w2"
      using ne nc Inr rd by (simp add: NewElasticsearch_def Let_def split: sum.splits)
    with ev show ?thesis by simp
  qed
qed



section \<open>Count\<close>

lemma Count_answered:
  assumes m: "(query = None \<and> queryBytes = []) \<or>
              (query \<noteq> None \<and> json_Marshal d (VMap query) = Inr queryBytes)"
    and p: "fst (Perform d (client c) ctx
                  (CountRequest [idx] (if length queryBytes > 0 then Some queryBytes else None))
                  (ext w)) = r"
  shows "fst (Count d c ctx idx query w) =
     (case r of
        Inl err \<Rightarrow> (0, Some (Errorf_w ''failed to count: '' err))
      | Inr res \<Rightarrow>
          if IsError res
          then (0, Some (Errorf (''elasticsearch count error: '' @ Response_String d res)))
          else (case json_Decode d (Body res) of
                  (result, Some err) \<Rightarrow> (0, Some (Errorf_w ''failed to decode response: '' err))
                | (result, None) \<Rightarrow>
                    (case map_index result ''count'' of
                       VFloat64 count \<Rightarrow> (int64 d count, None)
                     | _ \<Rightarrow> (0, Some (Errorf ''invalid count response format'')))))"
proof -
  have qb:
    "(if query \<noteq> None
      then (case json_Marshal d (VMap query) of
              Inl err \<Rightarrow> Inl (Errorf_w ''failed to marshal query: '' err)
            | Inr b \<Rightarrow> Inr b)
      else Inr []) = Inr queryBytes"
    using m by auto
  let ?req = "CountRequest [idx] (if length queryBytes > 0 then Some queryBytes else None)"
  obtain r' w' where rd: "req_Do d (client c) ctx ?req w = (r', w')"
    by (cases "req_Do d (client c) ctx ?req w")
  with p req_Do_fst[of d "client c" ctx ?req w]
  have r': "r' = r" by simp
  show ?thesis
    unfolding Count_def qb using rd r'
    by (simp add: Let_def split: sum.splits prod.splits option.splits any.splits)
qed

lemma map_index_count_cases:
  "map_index (Some kvs) k = (case map_of kvs k of None \<Rightarrow> VNil | Some v \<Rightarrow> v)"
  "map_index None k = VNil"
  by (simp_all add: map_index_def)

text \<open>
  C8. Where the query serializes (or is nil), the transport answers the count request
  that carries exactly that serialized query with a response outside the error range,
  and the body decodes into \<open>result\<close>: if the entry of \<open>result\<close> under the key \<open>count\<close> is a
  \<open>float64\<close>, \<open>Count\<close> returns its conversion to \<open>int64\<close> and no error, whatever other
  entries the map holds; if the map is nil, has no such entry, or the entry is of
  another type, it returns 0 and the error "invalid count response format". A transport
  failure gives the error "failed to count: ..." and a decode failure "failed to decode
  response: ..."; the text of the format error differs from both, whatever they wrap.
\<close>

theorem Count_extracts_count:
  "(((query = None \<and> queryBytes = []) \<or>
     (query \<noteq> None \<and> json_Marshal d (VMap query) = Inr queryBytes)) \<and>
    fst (Perform d (client c) ctx
           (CountRequest [idx] (if length queryBytes > 0 then Some queryBytes else None))
           (ext w)) = Inr res \<and>
    \<not> IsError res \<and> json_Decode d (Body res) = (result, None) \<longrightarrow>
      (\<forall>kvs f. result = Some kvs \<and> map_of kvs ''count'' = Some (VFloat64 f) \<longrightarrow>
           fst (Count d c ctx idx query w) = (int64 d f, None))
      \<and> (result = None \<or> (\<exists>kvs. result = Some kvs \<and> map_of kvs ''count'' = None) \<longrightarrow>
           fst (Count d c ctx idx query w) =
             (0, Some (Errorf ''invalid count response format'')))
      \<and> (\<forall>kvs v. result = Some kvs \<and> map_of kvs ''count'' = Some v \<and>
                 (\<forall>f. v \<noteq> VFloat64 f) \<longrightarrow>
           fst (Count d c ctx idx query w) =
             (0, Some (Errorf ''invalid count response format''))))
   \<and> (((query = None \<and> queryBytes = []) \<or>
        (query \<noteq> None \<and> json_Marshal d (VMap query) = Inr queryBytes)) \<and>
       fst (Perform d (client c) ctx
              (CountRequest [idx] (if length queryBytes > 0 then Some queryBytes else None))
              (ext w)) = Inl err \<longrightarrow>
         fst (Count d c ctx idx query w) = (0, Some (Errorf_w ''failed to count: '' err)))
   \<and> (((query = None \<and> queryBytes = []) \<or>
        (query \<noteq> None \<and> json_Marshal d (VMap query) = Inr queryBytes)) \<and>
       fst (Perform d (client c) ctx
              (CountRequest [idx] (if length queryBytes > 0 then Some queryBytes else None))
              (ext w)) = Inr res \<and>
       \<not> IsError res \<and> json_Decode d (Body res) = (result, Some err) \<longrightarrow>
         fst (Count d c ctx idx query w) =
           (0, Some (Errorf_w ''failed to decode response: '' err)))
   \<and> message (Errorf ''invalid count response format'')
         \<noteq> message (Errorf_w ''failed to count: '' err)
   \<and> message (Errorf ''invalid count response format'')
         \<noteq> message (Errorf_w ''failed to decode response: '' err)"
proof -
  let ?m = "(query = None \<and> queryBytes = []) \<or>
            (query \<noteq> None \<and> json_Marshal d (VMap query) = Inr queryBytes)"
  let ?req = "CountRequest [idx] (if length queryBytes > 0 then Some queryBytes else None)"
  let ?fmt = "(0::int, Some (Errorf ''invalid count response format''))"
  have ok: "fst (Count d c ctx idx query w) =
      (case map_index result ''count'' of
         VFloat64 count \<Rightarrow> (int64 d count, None)
       | _ \<Rightarrow> ?fmt)"
    if "?m" "fst (Perform d (client c) ctx ?req (ext w)) = Inr res" "\<not> IsError res"
       "json_Decode d (Body res) = (result, None)"
    using Count_answered[OF that(1) that(2)] that(3,4) by simp
  have a: "fst (Count d c ctx idx query w) = (int64 d f, None)"
    if "?m" "fst (Perform d (client c) ctx ?req (ext w)) = Inr res" "\<not> IsError res"
       "json_Decode d (Body res) = (result, None)"
       "result = Some kvs" "map_of kvs ''count'' = Some (VFloat64 f)" for kvs f
    using ok[OF that(1-4)] that(5,6) by (simp add: map_index_count_cases)
  have b: "fst (Count d c ctx idx query w) = ?fmt"
    if "?m" "fst (Perform d (client c) ctx ?req (ext w)) = Inr res" "\<not> IsError res"
       "json_Decode d (Body res) = (result, None)"
       "result = None \<or> (\<exists>kvs. result = Some kvs \<and> map_of kvs ''count'' = None)"
    using ok[OF that(1-4)] that(5) by (auto simp: map_index_count_cases)
  have c: "fst (Count d c ctx idx query w) = ?fmt"
    if "?m" "fst (Perform d (client c) ctx ?req (ext w)) = Inr res" "\<not> IsError res"
       "json_Decode d (Body res) = (result, None)"
       "result = Some kvs" "map_of kvs ''count'' = Some v" "\<forall>f. v \<noteq> VFloat64 f" for kvs v
    using ok[OF that(1-4)] that(5-7) by (cases v) (simp_all add: map_index_count_cases)
  have t: "fst (Count d c ctx idx query w) = (0, Some (Errorf_w ''failed to count: '' err))"
    if "?m" "fst (Perform d (client c) ctx ?req (ext w)) = Inl err"
    using Count_answered[OF that(1) that(2)] by simp
  have e: "fst (Count d c ctx idx query w) =
             (0, Some (Errorf_w ''failed to decode response: '' err))"
    if "?m" "fst (Perform d (client c) ctx ?req (ext w)) = Inr res" "\<not> IsError res"
       "json_Decode d (Body res) = (result, Some err)"
    using Count_answered[OF that(1) that(2)] that(3,4) by simp
  show ?thesis
    apply (intro conjI impI allI)
          apply (elim conjE, erule (5) a)
         apply (elim conjE, erule (3) b, assumption)
        apply (elim conjE, erule (6) c)
       apply (elim conjE, erule (1) t)
      apply (elim conjE, erule (3) e)
     apply simp
    apply simp
    done
qed

theorem Count_extracts_count_witness:
  "fst (Count (at_only Background 0 (CountRequest [''idx''] None)
                (Inr \<lparr> StatusCode = 200, Body = took_count_body \<rparr>))
          c0 Background ''idx'' None w0) = (3, None)
   \<and> fst (Count (at_only Background 0 (CountRequest [''idx''] (Some query_body))
                (Inr \<lparr> StatusCode = 200, Body = count_string_body \<rparr>))
          c0 Background ''idx'' (Some [(''q'', VString ''x'')]) w0) =
       (0, Some (Errorf ''invalid count response format''))
   \<and> fst (Count (stub (answer 200 doc_body)) c0 Background ''idx'' None w0) =
       (0, Some (Errorf ''invalid count response format''))
   \<and> fst (Count (stub (answer 200 ''null'')) c0 Background ''idx'' None w0) =
       (0, Some (Errorf ''invalid count response format''))
   \<and> fst (Count (stub refuse) c0 Background ''idx'' None w0) =
       (0, Some (Errorf_w ''failed to count: '' (Errorf ''connection refused'')))
   \<and> fst (Count (stub (answer 200 ''{bad'')) c0 Background ''idx'' None w0) =
       (0, Some (Errorf_w ''failed to decode response: '' (Errorf ''invalid character'')))"
proof -
  have w: "ext w0 = 0" "client c0 = ()"
    by (simp_all add: w0_def c0_def)
  have n: "stub_Decode ''null'' = (None, None)"
    by (simp add: stub_Decode_def count_body_def doc_body_def)
  have q: "stub_Marshal (VMap (Some [(''q'', VString ''x'')])) = Inr query_body"
    by (simp add: query_body_def)
  have 1: "fst (Count (at_only Background 0 (CountRequest [''idx''] None)
                (Inr \<lparr> StatusCode = 200, Body = took_count_body \<rparr>))
          c0 Background ''idx'' None w0) = (3, None)"
    using Count_extracts_count[of None "[]"
        "at_only Background 0 (CountRequest [''idx''] None)
                (Inr \<lparr> StatusCode = 200, Body = took_count_body \<rparr>)"
        c0 Background "''idx''" w0 "\<lparr> StatusCode = 200, Body = took_count_body \<rparr>"
        "Some [(''took'', VFloat64 5), (''count'', VFloat64 3)]" "Errorf ''none''"]
    by (simp add: w IsError_def)
  have 2: "fst (Count (at_only Background 0 (CountRequest [''idx''] (Some query_body))
                (Inr \<lparr> StatusCode = 200, Body = count_string_body \<rparr>))
          c0 Background ''idx'' (Some [(''q'', VString ''x'')]) w0) =
       (0, Some (Errorf ''invalid count response format''))"
    using Count_extracts_count[of "Some [(''q'', VString ''x'')]" query_body
        "at_only Background 0 (CountRequest [''idx''] (Some query_body))
                (Inr \<lparr> StatusCode = 200, Body = count_string_body \<rparr>)"
        c0 Background "''idx''" w0 "\<lparr> StatusCode = 200, Body = count_string_body \<rparr>"
        "Some [(''took'', VFloat64 5), (''count'', VString ''3'')]" "Errorf ''none''"] q
    by (simp add: w IsError_def query_body_def)
  have 3: "fst (Count (stub (answer 200 doc_body)) c0 Background ''idx'' None w0) =
       (0, Some (Errorf ''invalid count response format''))"
    using Count_extracts_count[of None "[]" "stub (answer 200 doc_body)" c0 Background "''idx''" w0
        "\<lparr> StatusCode = 200, Body = doc_body \<rparr>" "Some [(''title'', VString ''x'')]"
        "Errorf ''none''"]
    by (simp add: answer_def IsError_def)
  have 4: "fst (Count (stub (answer 200 ''null'')) c0 Background ''idx'' None w0) =
       (0, Some (Errorf ''invalid count response format''))"
    using Count_extracts_count[of None "[]" "stub (answer 200 ''null'')" c0 Background "''idx''" w0
        "\<lparr> StatusCode = 200, Body = ''null'' \<rparr>" None "Errorf ''none''"] n
    by (simp add: answer_def IsError_def)
  have 5: "fst (Count (stub refuse) c0 Background ''idx'' None w0) =
       (0, Some (Errorf_w ''failed to count: '' (Errorf ''connection refused'')))"
    using Count_extracts_count[of None "[]" "stub refuse" c0 Background "''idx''" w0
        "\<lparr> StatusCode = 200, Body = doc_body \<rparr>" None "Errorf ''connection refused''"]
    by (simp add: refuse_def)
  have 6: "fst (Count (stub (answer 200 ''{bad'')) c0 Background ''idx'' None w0) =
       (0, Some (Errorf_w ''failed to decode response: '' (Errorf ''invalid character'')))"
    using Count_extracts_count[of None "[]" "stub (answer 200 ''{bad'')" c0 Background "''idx''" w0
        "\<lparr> StatusCode = 200, Body = ''{bad'' \<rparr>" "Some [(''partial'', VBool True)]"
        "Errorf ''invalid character''"]
    by (simp add: answer_def IsError_def)
  from 1 2 3 4 5 6 show ?thesis by simp
qed

section \<open>No result map with an error\<close>

lemma queryWithTrace_nil_on_error:
  "snd (fst (queryWithTrace d ctx operation idx en h w)) \<noteq> None \<longrightarrow>
   fst (fst (queryWithTrace d ctx operation idx en h w)) = None"
  by (rule queryWithTrace_rule[where Q = "\<lambda>r s. snd r \<noteq> None \<longrightarrow> fst r = None"])
     (simp split: option.splits)

lemma executeQueryRequest_nil_on_error:
  "snd (fst (executeQueryRequest d c ctx idx query reqFunc operation w)) \<noteq> None \<longrightarrow>
   fst (fst (executeQueryRequest d c ctx idx query reqFunc operation w)) = None"
  unfolding executeQueryRequest_def
  by (simp split: sum.splits prod.splits option.splits)

lemma UpdateByQuery_nil_on_error:
  "snd (fst (UpdateByQuery d c ctx idx query script w)) \<noteq> None \<longrightarrow>
   fst (fst (UpdateByQuery d c ctx idx query script w)) = None"
  unfolding UpdateByQuery_def Let_def
  by (simp split: sum.splits prod.splits option.splits)

text \<open>
  C9. \<open>Get\<close>, \<open>Search\<close>, \<open>UpdateByQuery\<close> and \<open>DeleteByQuery\<close> never return an error together
  with a map: whenever the error is not nil the map is nil, also when the decoder failed
  after filling part of the map.
\<close>

theorem no_result_with_error:
  "(snd (fst (Get d c ctx idx documentID w)) \<noteq> None \<longrightarrow>
      fst (fst (Get d c ctx idx documentID w)) = None)
   \<and> (snd (fst (Search d c ctx idx query w)) \<noteq> None \<longrightarrow>
      fst (fst (Search d c ctx idx query w)) = None)
   \<and> (snd (fst (UpdateByQuery d c ctx idx query script w)) \<noteq> None \<longrightarrow>
      fst (fst (UpdateByQuery d c ctx idx query script w)) = None)
   \<and> (snd (fst (DeleteByQuery d c ctx idx query w)) \<noteq> None \<longrightarrow>
      fst (fst (DeleteByQuery d c ctx idx query w)) = None)"
  unfolding Get_def Search_def DeleteByQuery_def
  by (intro conjI queryWithTrace_nil_on_error executeQueryRequest_nil_on_error
        UpdateByQuery_nil_on_error)

lemma get_stub_bad:
  "fst (get (stub (answer 200 ''{bad'')) c0 ctx ''idx'' ''1'' w) =
     (None, Some (Errorf_w ''failed to decode response: '' (Errorf ''invalid character'')))"
  by (simp add: get_def req_Do_def answer_def IsError_def)

lemma executeQueryRequest_stub_500:
  "fst (executeQueryRequest (stub (answer 500 [])) c0 ctx ''idx'' None reqFunc operation w) =
     (None, Some (Errorf (''elasticsearch '' @ operation @ '' error: [response]'')))"
  by (simp add: executeQueryRequest_def req_Do_def answer_def IsError_def)

lemma UpdateByQuery_stub_refuse:
  "fst (UpdateByQuery (stub refuse) c0 ctx ''idx'' None None w) =
     (None, Some (Errorf_w ''failed to update by query: '' (Errorf ''connection refused'')))"
  by (simp add: UpdateByQuery_def req_Do_def refuse_def Let_def)

theorem no_result_with_error_witness:
  "snd (fst (Get (stub (answer 200 ''{bad'')) c0 Background ''idx'' ''1'' w0)) =
     Some (Errorf_w ''failed to decode response: '' (Errorf ''invalid character''))
   \<and> fst (fst (Get (stub (answer 200 ''{bad'')) c0 Background ''idx'' ''1'' w0)) = None
   \<and> snd (fst (Search (stub (answer 500 [])) c0 Background ''idx'' None w0)) =
     Some (Errorf ''elasticsearch search error: [response]'')
   \<and> fst (fst (Search (stub (answer 500 [])) c0 Background ''idx'' None w0)) = None
   \<and> snd (fst (UpdateByQuery (stub refuse) c0 Background ''idx'' None None w0)) =
     Some (Errorf_w ''failed to update by query: '' (Errorf ''connection refused''))
   \<and> fst (fst (UpdateByQuery (stub refuse) c0 Background ''idx'' None None w0)) = None
   \<and> snd (fst (DeleteByQuery (stub (answer 500 [])) c0 Background ''idx'' None w0)) =
     Some (Errorf ''elasticsearch delete by query error: [response]'')
   \<and> fst (fst (DeleteByQuery (stub (answer 500 [])) c0 Background ''idx'' None w0)) = None"
proof -
  have g: "snd (fst (Get (stub (answer 200 ''{bad'')) c0 Background ''idx'' ''1'' w0)) =
     Some (Errorf_w ''failed to decode response: '' (Errorf ''invalid character''))"
    unfolding Get_def
    by (rule queryWithTrace_rule[where Q = "\<lambda>r s. snd r = Some _"])
       (simp add: get_stub_bad)
  have s: "snd (fst (Search (stub (answer 500 [])) c0 Background ''idx'' None w0)) =
     Some (Errorf ''elasticsearch search error: [response]'')"
    unfolding Search_def search_def
    by (rule queryWithTrace_rule[where Q = "\<lambda>r s. snd r = Some _"])
       (simp add: executeQueryRequest_stub_500)
  have u: "snd (fst (UpdateByQuery (stub refuse) c0 Background ''idx'' None None w0)) =
     Some (Errorf_w ''failed to update by query: '' (Errorf ''connection refused''))"
    by (simp add: UpdateByQuery_stub_refuse)
  have dq: "snd (fst (DeleteByQuery (stub (answer 500 [])) c0 Background ''idx'' None w0)) =
     Some (Errorf ''elasticsearch delete by query error: [response]'')"
    by (simp add: DeleteByQuery_def executeQueryRequest_stub_500)
  show ?thesis
    using no_result_with_error[of "stub (answer 200 ''{bad'')" c0 Background "''idx''" "''1''" w0
        None None]
      no_result_with_error[of "stub (answer 500 [])" c0 Background "''idx''" "''1''" w0
        None None]
      no_result_with_error[of "stub refuse" c0 Background "''idx''" "''1''" w0 None None]
      g s u dq
    by simp
qed

section \<open>Forced refresh\<close>

text \<open>
  C10. Every \<open>Bulk\<close> call sends exactly one request, a bulk request whose \<open>Refresh\<close> field is
  \<open>"true"\<close>; the requests of \<open>Delete\<close>, \<open>Index\<close> and \<open>Update\<close> carry the same value in that
  field.
\<close>

theorem Bulk_forces_refresh:
  "sent (snd (Bulk d c ctx body w)) = sent w @ [BulkRequest body ''true'']
   \<and> Refresh (BulkRequest body ''true'') = ''true''
   \<and> sent (snd (Delete d c ctx idx documentID w)) = sent w @ [DeleteRequest idx documentID ''true'']
   \<and> Refresh (DeleteRequest idx documentID ''true'') = Refresh (BulkRequest body ''true'')
   \<and> sent (snd (Index d c ctx idx documentID (VBytes (Some b)) w)) =
       sent w @ [IndexRequest idx documentID b ''true'']
   \<and> Refresh (IndexRequest idx documentID b ''true'') = Refresh (BulkRequest body ''true'')
   \<and> (json_Marshal d (VMap (Some [(''doc'', VRawMessage (Some b))])) = Inr u \<longrightarrow>
        sent (snd (Update d c ctx idx documentID (VBytes (Some b)) w)) =
          sent w @ [UpdateRequest idx documentID u ''true''] \<and>
        Refresh (UpdateRequest idx documentID u ''true'') = Refresh (BulkRequest body ''true''))"
proof -
  have bulk: "sent (snd (bulk d c ctx' body w')) = sent w' @ [BulkRequest body ''true'']"
    for ctx' w'
  proof -
    obtain r w'' where rd: "req_Do d (client c) ctx' (BulkRequest body ''true'') w' = (r, w'')"
      by (cases "req_Do d (client c) ctx' (BulkRequest body ''true'') w'")
    have "sent w'' = sent w' @ [BulkRequest body ''true'']"
      using req_Do_sent[of d "client c" ctx' "BulkRequest body ''true''" w'] rd by simp
    then show ?thesis unfolding bulk_def using rd by (simp split: sum.splits)
  qed
  have del: "sent (snd (delete d c ctx' idx documentID w')) =
      sent w' @ [DeleteRequest idx documentID ''true'']" for ctx' w'
  proof -
    obtain r w'' where rd:
      "req_Do d (client c) ctx' (DeleteRequest idx documentID ''true'') w' = (r, w'')"
      by (cases "req_Do d (client c) ctx' (DeleteRequest idx documentID ''true'') w'")
    have "sent w'' = sent w' @ [DeleteRequest idx documentID ''true'']"
      using req_Do_sent[of d "client c" ctx' "DeleteRequest idx documentID ''true''" w'] rd by simp
    then show ?thesis unfolding delete_def using rd by (simp split: sum.splits)
  qed
  have 1: "sent (snd (Bulk d c ctx body w)) = sent w @ [BulkRequest body ''true'']"
    unfolding Bulk_def
    by (rule executeWithTrace_rule[where Q = "\<lambda>r s. s = sent w @ [BulkRequest body ''true'']"])
       (simp add: bulk)
  have 2: "sent (snd (Delete d c ctx idx documentID w)) =
      sent w @ [DeleteRequest idx documentID ''true'']"
    unfolding Delete_def
    by (rule executeWithTrace_rule[where Q = "\<lambda>r s. s = sent w @ [DeleteRequest idx documentID ''true'']"])
       (simp add: del)
  have 3: "sent (snd (Index d c ctx idx documentID (VBytes (Some b)) w)) =
       sent w @ [IndexRequest idx documentID b ''true'']"
    by (simp add: Index_sends bodyBytes_of_cases string_of_def)
  have 4: "json_Marshal d (VMap (Some [(''doc'', VRawMessage (Some b))])) = Inr u \<longrightarrow>
        sent (snd (Update d c ctx idx documentID (VBytes (Some b)) w)) =
          sent w @ [UpdateRequest idx documentID u ''true'']"
    by (simp add: Update_sends bodyBytes_of_cases)
  from 1 2 3 4 show ?thesis by simp
qed

theorem Bulk_forces_refresh_witness:
  "sent (snd (Bulk (stub (answer 200 [])) c0 Background ''{}'' w0)) = [BulkRequest ''{}'' ''true'']
   \<and> sent (snd (Update (stub (answer 200 [])) c0 Background ''idx'' ''1'' (VBytes (Some doc_body)) w0)) =
       [UpdateRequest ''idx'' ''1'' update_body ''true'']
   \<and> Refresh (UpdateRequest ''idx'' ''1'' update_body ''true'') = ''true''"
proof -
  have s0: "sent w0 = []" by (simp add: sent_def w0_def)
  show ?thesis
    using Bulk_forces_refresh[of "stub (answer 200 [])" c0 Background "''{}''" w0 "''idx''" "''1''"
        doc_body update_body]
    by (simp add: s0 doc_body_def update_body_def)
qed

end
